theory Spec2Isabelle
  imports Complex_Main
begin

section \<open>Python values\<close>

text \<open>
  The extraction returned by the reasoning service is a flat JSON object: every field of
  the extraction schema is a string, a number, a boolean or null. A value of that object,
  and therefore a value that \<open>setattr\<close> can store in a profile field, is one of:
\<close>

datatype pyval = PNone | PBool bool | PInt int | PFloat real | PStr string

text \<open>Python truthiness (\<open>if v:\<close>).\<close>

fun truthy :: "pyval \<Rightarrow> bool" where
  "truthy PNone = False"
| "truthy (PBool b) = b"
| "truthy (PInt i) = (i \<noteq> 0)"
| "truthy (PFloat r) = (r \<noteq> 0)"
| "truthy (PStr s) = (s \<noteq> [])"

text \<open>A dict with string keys, as an association list; the first binding of a key counts.\<close>

type_synonym pydict = "(string \<times> pyval) list"

definition dict_get :: "pydict \<Rightarrow> string \<Rightarrow> pyval" where
  "dict_get d k = (case map_of d k of None \<Rightarrow> PNone | Some v \<Rightarrow> v)"

definition dict_get_default :: "pydict \<Rightarrow> string \<Rightarrow> pyval \<Rightarrow> pyval" where
  "dict_get_default d k dflt = (case map_of d k of None \<Rightarrow> dflt | Some v \<Rightarrow> v)"

section \<open>models/database_models.py\<close>

datatype LeadStatus =
  NUEVO | CONTACTADO | CUALIFICADO | VISITA_AGENDADA | NEGOCIACION
  | CERRADO_GANADO | CERRADO_PERDIDO | INACTIVO

datatype LeadScore = CURIOSO | INTERESADO | CALIENTE | LISTO

datatype ChannelType = WHATSAPP | INSTAGRAM | EMAIL | TELEFONO | WEB | PORTAL

datatype TaskPriority = BAJA | MEDIA | ALTA | URGENTE

record LeadPreferences =
  operation :: pyval
  property_type :: pyval
  zone :: pyval
  min_budget :: pyval
  max_budget :: pyval
  min_sqm :: pyval
  max_sqm :: pyval
  bedrooms :: pyval
  bathrooms :: pyval
  parking :: pyval
  urgency :: pyval
  purpose :: pyval
  notes' :: pyval

text \<open>\<open>LeadPreferences()\<close>: every field defaults to None.\<close>

definition LeadPreferences_default :: LeadPreferences where
  "LeadPreferences_default =
     \<lparr>operation = PNone, property_type = PNone, zone = PNone, min_budget = PNone,
      max_budget = PNone, min_sqm = PNone, max_sqm = PNone, bedrooms = PNone,
      bathrooms = PNone, parking = PNone, urgency = PNone, purpose = PNone, notes' = PNone\<rparr>"

text \<open>Attribute names of \<open>LeadPreferences\<close>, for \<open>getattr\<close> and \<open>setattr\<close>.\<close>

datatype pref_key =
  K_operation | K_property_type | K_zone | K_min_budget | K_max_budget | K_min_sqm
  | K_max_sqm | K_bedrooms | K_bathrooms | K_parking | K_urgency | K_purpose | K_notes

fun getattr :: "LeadPreferences \<Rightarrow> pref_key \<Rightarrow> pyval" where
  "getattr p K_operation = operation p"
| "getattr p K_property_type = property_type p"
| "getattr p K_zone = zone p"
| "getattr p K_min_budget = min_budget p"
| "getattr p K_max_budget = max_budget p"
| "getattr p K_min_sqm = min_sqm p"
| "getattr p K_max_sqm = max_sqm p"
| "getattr p K_bedrooms = bedrooms p"
| "getattr p K_bathrooms = bathrooms p"
| "getattr p K_parking = parking p"
| "getattr p K_urgency = urgency p"
| "getattr p K_purpose = purpose p"
| "getattr p K_notes = notes' p"

fun setattr :: "LeadPreferences \<Rightarrow> pref_key \<Rightarrow> pyval \<Rightarrow> LeadPreferences" where
  "setattr p K_operation v = p\<lparr>operation := v\<rparr>"
| "setattr p K_property_type v = p\<lparr>property_type := v\<rparr>"
| "setattr p K_zone v = p\<lparr>zone := v\<rparr>"
| "setattr p K_min_budget v = p\<lparr>min_budget := v\<rparr>"
| "setattr p K_max_budget v = p\<lparr>max_budget := v\<rparr>"
| "setattr p K_min_sqm v = p\<lparr>min_sqm := v\<rparr>"
| "setattr p K_max_sqm v = p\<lparr>max_sqm := v\<rparr>"
| "setattr p K_bedrooms v = p\<lparr>bedrooms := v\<rparr>"
| "setattr p K_bathrooms v = p\<lparr>bathrooms := v\<rparr>"
| "setattr p K_parking v = p\<lparr>parking := v\<rparr>"
| "setattr p K_urgency v = p\<lparr>urgency := v\<rparr>"
| "setattr p K_purpose v = p\<lparr>purpose := v\<rparr>"
| "setattr p K_notes v = p\<lparr>notes' := v\<rparr>"

text \<open>
  \<open>Lead\<close>. The model has no assignment validation, so \<open>name\<close> holds whatever the
  extraction stored there; fields that the CRM functions do not read are left out.
\<close>

record Lead =
  id' :: "string option"
  name :: pyval
  phone :: "string option"
  channel :: ChannelType
  status :: LeadStatus
  score :: int
  score_label :: LeadScore
  preferences :: LeadPreferences
  total_interactions :: int

section \<open>config.py: lead scoring thresholds\<close>

definition LEAD_SCORE_COLD :: int where "LEAD_SCORE_COLD = 25"
definition LEAD_SCORE_WARM :: int where "LEAD_SCORE_WARM = 50"
definition LEAD_SCORE_HOT :: int where "LEAD_SCORE_HOT = 75"
definition LEAD_SCORE_READY :: int where "LEAD_SCORE_READY = 100"

section \<open>tools/crm.py\<close>

text \<open>\<open>if c: score += n\<close>\<close>

definition add_if :: "bool \<Rightarrow> int \<Rightarrow> int \<Rightarrow> int" where
  "add_if c n sc = (if c then sc + n else sc)"

text \<open>\<open>interest_points.get(interest, 0)\<close>\<close>

definition interest_points :: "pyval \<Rightarrow> int" where
  "interest_points interest =
     (if interest = PStr ''bajo'' then 0
      else if interest = PStr ''medio'' then 5
      else if interest = PStr ''alto'' then 10
      else if interest = PStr ''muy alto'' then 15
      else 0)"

text \<open>The block under \<open>if extracted:\<close> (an absent or empty dict is falsy).\<close>

definition extraction_points :: "pydict option \<Rightarrow> int \<Rightarrow> int" where
  "extraction_points extracted sc =
     (case extracted of
        None \<Rightarrow> sc
      | Some d \<Rightarrow>
          if d = [] then sc
          else
            let interest = dict_get_default d ''interest_level'' (PStr ''bajo'');
                sc = sc + interest_points interest
            in add_if (truthy (dict_get d ''wants_visit'')) 15 sc)"

definition calculate_lead_score :: "Lead \<Rightarrow> pydict option \<Rightarrow> int" where
  "calculate_lead_score lead extracted =
     (let sc = 0;
          prefs = preferences lead;
          sc = add_if (truthy (operation prefs)) 10 sc;
          sc = add_if (truthy (property_type prefs)) 10 sc;
          sc = add_if (truthy (zone prefs)) 15 sc;
          sc = add_if (truthy (max_budget prefs) \<or> truthy (min_budget prefs)) 15 sc;
          sc = add_if (truthy (bedrooms prefs)) 5 sc;
          sc = (if truthy (urgency prefs)
                then add_if (urgency prefs = PStr ''inmediata'' \<or> urgency prefs = PStr ''1-3 meses'')
                       10 (sc + 10)
                else sc);
          sc = add_if (truthy (purpose prefs)) 5 sc;
          sc = add_if (truthy (name lead)) 5 sc;
          sc = extraction_points extracted sc;
          sc = add_if (total_interactions lead \<ge> 3) 5 sc;
          sc = add_if (total_interactions lead \<ge> 5) 5 sc
      in min sc 100)"

definition get_score_label :: "int \<Rightarrow> LeadScore" where
  "get_score_label sc =
     (if sc \<le> LEAD_SCORE_COLD then CURIOSO
      else if sc \<le> LEAD_SCORE_WARM then INTERESADO
      else if sc \<le> LEAD_SCORE_HOT then CALIENTE
      else LISTO)"

text \<open>
  The calls that \<open>update_lead_from_extraction\<close> makes to the store adapter. The adapter
  never raises and its results are not read, so the calls are recorded in order. The
  free-text description and the timestamp of a task are not modelled.
\<close>

record lead_update =
  upd_name :: pyval
  upd_preferences :: LeadPreferences
  upd_score :: int
  upd_score_label :: LeadScore
  upd_status :: LeadStatus

record task_data =
  task_lead_id :: "string option"
  task_type :: string
  task_priority :: TaskPriority
  task_status :: string

datatype db_call = UpdateLead "string option" lead_update | CreateTask task_data

definition create_hot_lead_task :: "Lead \<Rightarrow> db_call" where
  "create_hot_lead_task lead =
     CreateTask \<lparr>task_lead_id = id' lead, task_type = ''llamar'',
                 task_priority = ALTA, task_status = ''pendiente''\<rparr>"

definition create_human_handoff_task :: "Lead \<Rightarrow> db_call" where
  "create_human_handoff_task lead =
     CreateTask \<lparr>task_lead_id = id' lead, task_type = ''contactar'',
                 task_priority = URGENTE, task_status = ''pendiente''\<rparr>"

text \<open>The extraction key and the preference attribute it fills, in the order of the dict.\<close>

definition field_map :: "(string \<times> pref_key) list" where
  "field_map =
     [(''operation'', K_operation), (''property_type'', K_property_type), (''zone'', K_zone),
      (''min_budget'', K_min_budget), (''max_budget'', K_max_budget),
      (''bedrooms'', K_bedrooms), (''bathrooms'', K_bathrooms), (''min_sqm'', K_min_sqm),
      (''parking'', K_parking), (''urgency'', K_urgency), (''purpose'', K_purpose)]"

text \<open>One iteration of \<open>for ext_key, pref_key in field_map.items()\<close> on \<open>(prefs, updated)\<close>.\<close>

definition merge_field ::
  "pydict \<Rightarrow> string \<times> pref_key \<Rightarrow> LeadPreferences \<times> bool \<Rightarrow> LeadPreferences \<times> bool" where
  "merge_field extracted kv st =
     (let v = dict_get extracted (fst kv)
      in if v \<noteq> PNone \<and> getattr (fst st) (snd kv) = PNone
         then (setattr (fst st) (snd kv) v, True)
         else st)"

definition update_lead_from_extraction :: "Lead \<Rightarrow> pydict \<Rightarrow> Lead \<times> db_call list" where
  "update_lead_from_extraction lead0 extracted =
     (let (prefs, updated) = fold (merge_field extracted) field_map (preferences lead0, False);
          extracted_name = dict_get extracted ''name'';
          fill_name = (truthy extracted_name \<and> \<not> truthy (name lead0));
          lead = (if fill_name then lead0\<lparr>name := extracted_name\<rparr> else lead0);
          updated = (if fill_name then True else updated);
          lead = lead\<lparr>preferences := prefs\<rparr>;
          lead = lead\<lparr>score := calculate_lead_score lead (Some extracted)\<rparr>;
          lead = lead\<lparr>score_label := get_score_label (score lead)\<rparr>;
          lead =
            (if score lead \<ge> LEAD_SCORE_HOT \<and> status lead = NUEVO
             then lead\<lparr>status := CUALIFICADO\<rparr>
             else if score lead \<ge> LEAD_SCORE_WARM \<and> status lead = NUEVO
             then lead\<lparr>status := CONTACTADO\<rparr>
             else lead);
          calls =
            (if updated \<or> True
             then [UpdateLead (id' lead)
                     \<lparr>upd_name = name lead, upd_preferences = prefs, upd_score = score lead,
                      upd_score_label = score_label lead, upd_status = status lead\<rparr>]
             else []);
          calls = (if score lead \<ge> LEAD_SCORE_HOT then calls @ [create_hot_lead_task lead] else calls);
          calls =
            (if truthy (dict_get extracted ''wants_human_agent'')
             then calls @ [create_human_handoff_task lead]
             else calls)
      in (lead, calls))"

text \<open>A sequence of qualification passes on one lead, one extraction per pass.\<close>

fun qualification_passes :: "Lead \<Rightarrow> pydict list \<Rightarrow> Lead" where
  "qualification_passes lead [] = lead"
| "qualification_passes lead (e # es) =
     qualification_passes (fst (update_lead_from_extraction lead e)) es"


section \<open>tools/ai_engine.py\<close>

text \<open>
  An exception that leaves a function: the \<open>KeyError\<close> of a dict subscript with its key,
  or an exception raised inside a collaborator, by its text.
\<close>

datatype py_error = KeyError string | Raised string

text \<open>\<open>d[k]\<close>\<close>

definition dict_subscript :: "pydict \<Rightarrow> string \<Rightarrow> py_error + pyval" where
  "dict_subscript d k = (case map_of d k of None \<Rightarrow> Inl (KeyError k) | Some v \<Rightarrow> Inr v)"

text \<open>
  The functions of other modules that the dispatch calls. What they compute (store
  queries, calendar requests, the mortgage arithmetic on floats, and the text that the
  three formatting functions build from a property row, a slot list and a simulation)
  is outside the dispatch, so they are parameters: \<open>'p\<close> is a property row, \<open>'s\<close> a
  calendar slot, \<open>'m\<close> a mortgage simulation. Each may raise, the formatting functions
  too (\<open>format_property_for_chat\<close> on a row with a null price, for one).
  \<open>strptime\<close> gives the ISO text of the parsed date and time, or \<open>None\<close> for its
  \<open>ValueError\<close>; \<open>schedule_visit\<close> gives whether the result is present and has an id.
\<close>

record ('p, 's, 'm) collaborators =
  search_properties_by_criteria ::
    "pyval \<Rightarrow> pyval \<Rightarrow> pyval \<Rightarrow> pyval \<Rightarrow> pyval \<Rightarrow> py_error + 'p list"
  get_property_by_reference :: "pyval \<Rightarrow> py_error + 'p option"
  strptime :: "pyval \<Rightarrow> pyval \<Rightarrow> string option"
  schedule_visit :: "pyval \<Rightarrow> pyval \<Rightarrow> pyval \<Rightarrow> pyval \<Rightarrow> string \<Rightarrow> py_error + bool"
  get_available_slots :: "pyval \<Rightarrow> py_error + 's list"
  calculate_mortgage :: "pyval \<Rightarrow> pyval \<Rightarrow> pyval \<Rightarrow> pyval \<Rightarrow> py_error + 'm"
  handoff_to_human ::
    "pyval \<Rightarrow> pyval \<Rightarrow> pyval \<Rightarrow> pyval \<Rightarrow> pyval \<Rightarrow> pyval \<Rightarrow> pyval \<Rightarrow> py_error + unit"
  format_property_for_chat :: "'p \<Rightarrow> py_error + string"
  format_available_slots_for_chat :: "pyval \<Rightarrow> 's list \<Rightarrow> py_error + string"
  format_mortgage_for_chat :: "'m \<Rightarrow> py_error + string"

text \<open>
  The result string of a tool call, by the branch that built it and the data it shows
  (the literals of the source contain characters outside ASCII): the formatted text of
  each property found, of the property, of the slots and of the simulation are the
  texts that the formatting functions returned.
\<close>

datatype tool_text =
  NoPropertiesFound
  | PropertiesFound "string list"
  | PropertyNotFound pyval
  | PropertyDetails string
  | BadDateTimeFormat
  | VisitScheduled pyval pyval pyval
  | VisitNotScheduled
  | NoSlots pyval
  | AvailableSlots string
  | MortgageSimulation string
  | HandoffResponse pyval
  | NotImplemented string

text \<open>
  \<open>for prop in results: output += format_property_for_chat(prop)\<close>: the texts in
  order, or the exception of the first row whose formatting raises.
\<close>

fun format_properties :: "('p \<Rightarrow> py_error + string) \<Rightarrow> 'p list \<Rightarrow> py_error + string list" where
  "format_properties fmt [] = Inr []"
| "format_properties fmt (prop # props) =
     (case fmt prop of
        Inl err \<Rightarrow> Inl err
      | Inr t \<Rightarrow>
          (case format_properties fmt props of
             Inl err \<Rightarrow> Inl err
           | Inr ts \<Rightarrow> Inr (t # ts)))"

definition execute_tool_call ::
  "('p, 's, 'm) collaborators \<Rightarrow> string \<Rightarrow> pydict \<Rightarrow> pydict option
     \<Rightarrow> py_error + tool_text" where
  "execute_tool_call C nm arguments lead_context0 =
     (let lead_context = (case lead_context0 of None \<Rightarrow> [] | Some d \<Rightarrow> d) in
      if nm = ''search_properties'' then
        (case search_properties_by_criteria C
                (dict_get arguments ''zone'') (dict_get arguments ''property_type'')
                (dict_get arguments ''max_price'') (dict_get arguments ''bedrooms'')
                (dict_get arguments ''operation'') of
           Inl err \<Rightarrow> Inl err
         | Inr results \<Rightarrow>
             if results = [] then Inr NoPropertiesFound
             else (case format_properties (format_property_for_chat C) results of
                     Inl err \<Rightarrow> Inl err
                   | Inr texts \<Rightarrow> Inr (PropertiesFound texts)))
      else if nm = ''get_property_details'' then
        (case dict_subscript arguments ''reference'' of
           Inl err \<Rightarrow> Inl err
         | Inr reference \<Rightarrow>
             (case get_property_by_reference C reference of
                Inl err \<Rightarrow> Inl err
              | Inr None \<Rightarrow> Inr (PropertyNotFound reference)
              | Inr (Some prop) \<Rightarrow>
                  (case format_property_for_chat C prop of
                     Inl err \<Rightarrow> Inl err
                   | Inr t \<Rightarrow> Inr (PropertyDetails t))))
      else if nm = ''schedule_visit'' then
        (let date_str = dict_get_default arguments ''preferred_date'' (PStr '''');
             time_str = dict_get_default arguments ''preferred_time'' (PStr '''');
             prop_ref = dict_get_default arguments ''property_reference'' (PStr '''')
         in case strptime C date_str time_str of
              None \<Rightarrow> Inr BadDateTimeFormat
            | Some visit_datetime \<Rightarrow>
                (let client_name = dict_get_default arguments ''client_name''
                                     (dict_get_default lead_context ''name'' (PStr ''''));
                     client_phone = dict_get_default arguments ''client_phone''
                                      (dict_get_default lead_context ''phone'' (PStr ''''));
                     client_email = dict_get_default lead_context ''email'' (PStr '''')
                 in case schedule_visit C client_name client_phone client_email prop_ref
                           visit_datetime of
                      Inl err \<Rightarrow> Inl err
                    | Inr has_id \<Rightarrow>
                        if has_id then Inr (VisitScheduled date_str time_str prop_ref)
                        else Inr VisitNotScheduled))
      else if nm = ''check_availability'' then
        (let date_str = dict_get_default arguments ''date'' (PStr '''')
         in case get_available_slots C date_str of
              Inl err \<Rightarrow> Inl err
            | Inr slots \<Rightarrow>
                if slots = [] then Inr (NoSlots date_str)
                else (case format_available_slots_for_chat C date_str slots of
                        Inl err \<Rightarrow> Inl err
                      | Inr t \<Rightarrow> Inr (AvailableSlots t)))
      else if nm = ''calculate_mortgage'' then
        (case dict_subscript arguments ''price'' of
           Inl err \<Rightarrow> Inl err
         | Inr price \<Rightarrow>
             (case calculate_mortgage C price
                     (dict_get_default arguments ''down_payment_percent'' (PInt 20))
                     (dict_get_default arguments ''years'' (PInt 30))
                     (dict_get_default arguments ''interest_rate'' (PFloat 3.5)) of
                Inl err \<Rightarrow> Inl err
              | Inr result \<Rightarrow>
                  (case format_mortgage_for_chat C result of
                     Inl err \<Rightarrow> Inl err
                   | Inr t \<Rightarrow> Inr (MortgageSimulation t))))
      else if nm = ''transfer_to_human'' then
        (let reason = dict_get_default arguments ''reason'' (PStr ''solicitud_directa'');
             summary = dict_get_default arguments ''summary'' (PStr '''')
         in case handoff_to_human C
                   (dict_get_default lead_context ''name'' (PStr ''''))
                   (dict_get_default lead_context ''phone'' (PStr ''''))
                   (dict_get_default lead_context ''email'' (PStr ''''))
                   (dict_get_default lead_context ''score'' (PInt 0))
                   (dict_get_default lead_context ''channel'' (PStr ''whatsapp''))
                   reason summary of
              Inl err \<Rightarrow> Inl err
            | Inr _ \<Rightarrow> Inr (HandoffResponse reason))
      else Inr (NotImplemented nm))"

text \<open>
  A tool call of a response: what \<open>json.loads\<close> makes of its argument text is either a
  \<open>JSONDecodeError\<close> or the argument object.
\<close>

datatype json_loads = JSONDecodeError | JsonObject pydict

record tool_call =
  tc_id :: string
  tc_name :: string
  tc_arguments :: json_loads

text \<open>The first choice of a completion.\<close>

record response =
  finish_reason :: string
  tool_calls :: "tool_call list"
  content :: "string option"

text \<open>A call of the reasoning service raises (the text of the exception) or returns.\<close>

datatype llm_outcome = Raises string | Returns response

datatype message =
  Msg string string
  | AssistantMsg response
  | ToolMsg string tool_text

text \<open>\<open>needle in text\<close> on strings.\<close>

fun starts_with :: "string \<Rightarrow> string \<Rightarrow> bool" where
  "starts_with [] ys = True"
| "starts_with (x # xs) [] = False"
| "starts_with (x # xs) (y # ys) = (x = y \<and> starts_with xs ys)"

fun str_contains :: "string \<Rightarrow> string \<Rightarrow> bool" where
  "str_contains needle [] = (needle = [])"
| "str_contains needle (c # cs) = (starts_with needle (c # cs) \<or> str_contains needle cs)"

text \<open>The two fixed replies (the literals of the source, without their non-ASCII characters).\<close>

definition STILL_PROCESSING :: string where
  "STILL_PROCESSING = ''Estoy procesando tu solicitud. Puedes darme un momento?''"

definition TECHNICAL_DIFFICULTIES :: string where
  "TECHNICAL_DIFFICULTIES =
     ''Lo siento, estoy teniendo dificultades tecnicas. Podrias intentar de nuevo?''"

text \<open>\<open>for tool_call in choice.message.tool_calls\<close>: the messages grow by one tool result per call.\<close>

fun run_tool_calls ::
  "('p, 's, 'm) collaborators \<Rightarrow> pydict option \<Rightarrow> tool_call list
     \<Rightarrow> message list \<Rightarrow> py_error + message list" where
  "run_tool_calls C lead_context [] messages = Inr messages"
| "run_tool_calls C lead_context (tc # tcs) messages =
     (let func_args = (case tc_arguments tc of JSONDecodeError \<Rightarrow> [] | JsonObject d \<Rightarrow> d)
      in case execute_tool_call C (tc_name tc) func_args lead_context of
           Inl err \<Rightarrow> Inl err
         | Inr result \<Rightarrow> run_tool_calls C lead_context tcs (messages @ [ToolMsg (tc_id tc) result]))"

text \<open>
  \<open>for _round in range(max_tool_rounds)\<close>, with the rounds that are left. The reasoning
  service is the sequence of its outcomes, \<open>client k\<close> for the call number \<open>k\<close> of this
  invocation; the number of calls made is returned with the result.
\<close>

fun tool_rounds ::
  "('p, 's, 'm) collaborators \<Rightarrow> (nat \<Rightarrow> llm_outcome) \<Rightarrow> pydict option \<Rightarrow> nat \<Rightarrow> nat
     \<Rightarrow> message list \<Rightarrow> (py_error + string) \<times> nat" where
  "tool_rounds C client lead_context 0 calls messages = (Inr STILL_PROCESSING, calls)"
| "tool_rounds C client lead_context (Suc rounds) calls messages =
     (case client calls of
        Raises error_str \<Rightarrow>
          if str_contains ''429'' error_str
          then tool_rounds C client lead_context rounds (Suc calls) messages
          else (Inr TECHNICAL_DIFFICULTIES, Suc calls)
      | Returns choice \<Rightarrow>
          if finish_reason choice = ''tool_calls'' \<and> tool_calls choice \<noteq> []
          then (case run_tool_calls C lead_context (tool_calls choice)
                       (messages @ [AssistantMsg choice]) of
                  Inl err \<Rightarrow> (Inl err, Suc calls)
                | Inr messages' \<Rightarrow> tool_rounds C client lead_context rounds (Suc calls) messages')
          else (Inr (case content choice of None \<Rightarrow> [] | Some text \<Rightarrow> text), Suc calls))"

definition generate_with_tools ::
  "('p, 's, 'm) collaborators \<Rightarrow> (nat \<Rightarrow> llm_outcome) \<Rightarrow> pydict option \<Rightarrow> int
     \<Rightarrow> message list \<Rightarrow> (py_error + string) \<times> nat" where
  "generate_with_tools C client lead_context max_tool_rounds messages =
     tool_rounds C client lead_context (nat max_tool_rounds) 0 messages"

text \<open>A call that returns a value rather than raising.\<close>

definition returned :: "'e + 'a \<Rightarrow> bool" where
  "returned r = (case r of Inl _ \<Rightarrow> False | Inr _ \<Rightarrow> True)"

text \<open>
  A round after which the loop goes on to the next one: a rate-limit exception, or a
  request for tools all of whose calls return.
\<close>

definition round_goes_on ::
  "('p, 's, 'm) collaborators \<Rightarrow> pydict option \<Rightarrow> llm_outcome \<Rightarrow> bool" where
  "round_goes_on C lead_context outcome =
     (case outcome of
        Raises error_str \<Rightarrow> str_contains ''429'' error_str
      | Returns choice \<Rightarrow>
          finish_reason choice = ''tool_calls'' \<and> tool_calls choice \<noteq> []
          \<and> list_all (\<lambda>tc. returned (execute_tool_call C (tc_name tc)
                       (case tc_arguments tc of JSONDecodeError \<Rightarrow> [] | JsonObject d \<Rightarrow> d)
                       lead_context))
               (tool_calls choice))"


section \<open>tools/nurturing_engine.py\<close>

text \<open>
  The \<open>last_contact\<close> of a lead row against the clock of the run: absent, a time that
  lies the given number of days back, or a value on which \<open>fromisoformat\<close> or the
  subtraction from \<open>now\<close> raises.
\<close>

datatype last_contact = NoLastContact | DaysAgo int | BadLastContact

text \<open>
  A lead row as \<open>process_nurturing\<close> reads it. An absent or null phone, email or name is
  the empty string (all are falsy); \<open>row_preferences\<close> is \<open>None\<close> for a null column,
  on which \<open>prefs.get\<close> raises. The score and the interaction count are numbers.
\<close>

record lead_row =
  row_id :: "string option"
  row_last_contact :: last_contact
  row_score :: int
  row_total_interactions :: int
  row_phone :: string
  row_email :: string
  row_name :: string
  row_preferences :: "pydict option"

record nurturing_action =
  a_type :: string
  a_channel :: string
  a_template :: string

definition evaluate_nurturing_rules ::
  "lead_row \<Rightarrow> int \<Rightarrow> int \<Rightarrow> int \<Rightarrow> nurturing_action option" where
  "evaluate_nurturing_rules lead days_since_contact sc interactions =
     (if sc \<ge> 60 \<and> days_since_contact \<ge> 2
      then Some \<lparr>a_type = ''hot_lead_urgency'', a_channel = ''whatsapp'', a_template = ''hot_lead''\<rparr>
      else if 30 \<le> sc \<and> sc < 60 \<and> days_since_contact \<ge> 3
      then Some \<lparr>a_type = ''warm_lead_nudge'', a_channel = ''whatsapp'', a_template = ''warm_nudge''\<rparr>
      else if interactions \<le> 2 \<and> sc < 30 \<and> 1 \<le> days_since_contact \<and> days_since_contact \<le> 2
      then Some \<lparr>a_type = ''post_first_contact'', a_channel = ''whatsapp'',
                  a_template = ''first_followup''\<rparr>
      else if sc < 30 \<and> days_since_contact \<ge> 7
      then Some \<lparr>a_type = ''cold_lead_reactivation'', a_channel = ''email'',
                  a_template = ''reactivation''\<rparr>
      else None)"

text \<open>
  The templated message, by its template and the three values it is composed from
  (the literals of the source contain characters outside ASCII).
\<close>

record nurturing_message =
  nm_template :: string
  nm_name :: string
  nm_prop_type :: string
  nm_zone :: string

text \<open>
  A preference value inside a string concatenation: a falsy value contributes nothing,
  a string is concatenated, any other truthy value raises \<open>TypeError\<close>.
\<close>

definition concat_text :: "pyval \<Rightarrow> py_error + string" where
  "concat_text v =
     (if \<not> truthy v then Inr []
      else case v of PStr s \<Rightarrow> Inr s | _ \<Rightarrow> Inl (Raised ''TypeError''))"

definition generate_nurturing_message :: "string \<Rightarrow> lead_row \<Rightarrow> py_error + nurturing_message" where
  "generate_nurturing_message template lead =
     (case row_preferences lead of
        None \<Rightarrow> Inl (Raised ''AttributeError'')
      | Some prefs \<Rightarrow>
          let zone_v = dict_get_default prefs ''zone'' (PStr '''');
              prop_type_v = dict_get_default prefs ''property_type'' (PStr '''')
          in if template = ''first_followup'' \<or> template = ''warm_nudge''
                \<or> template = ''reactivation''
             then (case concat_text prop_type_v of
                     Inl err \<Rightarrow> Inl err
                   | Inr p \<Rightarrow>
                       (case concat_text zone_v of
                          Inl err \<Rightarrow> Inl err
                        | Inr z \<Rightarrow>
                            Inr \<lparr>nm_template = template, nm_name = row_name lead,
                                 nm_prop_type = p, nm_zone = z\<rparr>))
             else if template = ''hot_lead''
             then (case concat_text zone_v of
                     Inl err \<Rightarrow> Inl err
                   | Inr z \<Rightarrow>
                       Inr \<lparr>nm_template = template, nm_name = row_name lead,
                            nm_prop_type = [], nm_zone = z\<rparr>)
             else Inr \<lparr>nm_template = template, nm_name = row_name lead,
                       nm_prop_type = [], nm_zone = []\<rparr>)"

text \<open>
  The two delivery services, by their outcome on a destination and a message. For
  Twilio: the client cannot be built (\<open>get_twilio_client\<close> raises), the creation of
  the message raises, or the message is created. For SendGrid: whether the post
  succeeds (\<open>raise_for_status\<close> raises otherwise). The subject of an email is looked up
  by the template.
\<close>

datatype twilio_outcome = NoTwilioClient | CreateRaises | Created

record deliveries =
  twilio_create :: "string \<Rightarrow> nurturing_message \<Rightarrow> twilio_outcome"
  sendgrid_post :: "string \<Rightarrow> string \<Rightarrow> nurturing_message \<Rightarrow> bool"

text \<open>
  What a run does, in order: the delivery calls with their outcome, and the lines it
  prints, each with the destination or lead id that the line shows.
\<close>

datatype nurturing_event =
  SendWhatsApp string nurturing_message bool
  | SendEmail string string nurturing_message bool
  | PrintWhatsAppSent string
  | PrintWhatsAppError string
  | PrintWhatsAppDone string
  | PrintEmailSent string
  | PrintEmailDone string
  | PrintEmailError string
  | PrintLeadError "string option"

text \<open>
  \<open>send_whatsapp_message\<close> of tools/whatsapp_handler.py: the whole body is inside a
  \<open>try\<close>, so it never raises; on an exception it prints the error with \<open>to\<close> as it
  stands then and returns an error dict (\<open>False\<close>).
\<close>

definition send_whatsapp_message ::
  "deliveries \<Rightarrow> string \<Rightarrow> nurturing_message \<Rightarrow> bool \<times> nurturing_event list" where
  "send_whatsapp_message D to body =
     (let to' = (if \<not> starts_with ''whatsapp:'' to then ''whatsapp:'' @ to else to)
      in case twilio_create D to' body of
           NoTwilioClient \<Rightarrow> (False, [PrintWhatsAppError to])
         | CreateRaises \<Rightarrow> (False, [PrintWhatsAppError to'])
         | Created \<Rightarrow> (True, [PrintWhatsAppSent to']))"

text \<open>
  \<open>send_email\<close> of tools/email_handler.py: raises when the post fails, prints and
  returns otherwise.
\<close>

definition send_email ::
  "deliveries \<Rightarrow> string \<Rightarrow> string \<Rightarrow> nurturing_message \<Rightarrow> py_error + nurturing_event list" where
  "send_email D to_email subject body =
     (if sendgrid_post D to_email subject body then Inr [PrintEmailSent to_email]
      else Inl (Raised ''HTTPStatusError''))"

definition execute_nurturing_action ::
  "deliveries \<Rightarrow> lead_row \<Rightarrow> nurturing_action \<Rightarrow> py_error + nurturing_event list" where
  "execute_nurturing_action D lead action =
     (let phone = row_phone lead;
          email = row_email lead;
          template = a_template action
      in case generate_nurturing_message template lead of
           Inl err \<Rightarrow> Inl err
         | Inr message \<Rightarrow>
             let by_whatsapp =
                   (if (a_channel action = ''whatsapp'' \<or> a_channel action = ''both'')
                       \<and> phone \<noteq> [] \<and> \<not> starts_with ''ig:'' phone
                    then (case send_whatsapp_message D (''whatsapp:'' @ phone) message of
                            (ok, printed) \<Rightarrow>
                              SendWhatsApp (''whatsapp:'' @ phone) message ok # printed
                              @ [PrintWhatsAppDone phone])
                    else []);
                 by_email =
                   (if (a_channel action = ''email'' \<or> a_channel action = ''both'') \<and> email \<noteq> []
                    then (case send_email D email template message of
                            Inr printed \<Rightarrow>
                              SendEmail email template message True # printed
                              @ [PrintEmailDone email]
                          | Inl err \<Rightarrow>
                              [SendEmail email template message False, PrintEmailError email])
                    else [])
             in Inr (by_whatsapp @ by_email))"

record counts =
  messages_sent :: int
  emails_sent :: int
  leads_processed :: int
  errors :: int

text \<open>The body of the \<open>try\<close> for one lead: the counts and events after it, or the exception.\<close>

definition nurture_lead ::
  "deliveries \<Rightarrow> lead_row \<Rightarrow> counts \<Rightarrow> py_error + counts \<times> nurturing_event list" where
  "nurture_lead D lead actions_taken =
     (case row_last_contact lead of
        BadLastContact \<Rightarrow> Inl (Raised ''ValueError'')
      | lc \<Rightarrow>
          let days_since = (case lc of DaysAgo d \<Rightarrow> d | _ \<Rightarrow> 999);
              sc = row_score lead;
              interactions = row_total_interactions lead
          in case evaluate_nurturing_rules lead days_since sc interactions of
               None \<Rightarrow> Inr (actions_taken, [])
             | Some action \<Rightarrow>
                 (case execute_nurturing_action D lead action of
                    Inl err \<Rightarrow> Inl err
                  | Inr events \<Rightarrow>
                      let c = actions_taken\<lparr>leads_processed := leads_processed actions_taken + 1\<rparr>;
                          c = (if a_channel action = ''whatsapp'' \<or> a_channel action = ''both''
                               then c\<lparr>messages_sent := messages_sent c + 1\<rparr> else c);
                          c = (if a_channel action = ''email'' \<or> a_channel action = ''both''
                               then c\<lparr>emails_sent := emails_sent c + 1\<rparr> else c)
                      in Inr (c, events)))"

text \<open>\<open>for lead in leads\<close>, with \<open>except Exception\<close> around the body.\<close>

fun nurturing_loop ::
  "deliveries \<Rightarrow> lead_row list \<Rightarrow> counts \<times> nurturing_event list
     \<Rightarrow> counts \<times> nurturing_event list" where
  "nurturing_loop D [] st = st"
| "nurturing_loop D (lead # leads) (actions_taken, events) =
     nurturing_loop D leads
       (case nurture_lead D lead actions_taken of
          Inl err \<Rightarrow>
            (actions_taken\<lparr>errors := errors actions_taken + 1\<rparr>,
             events @ [PrintLeadError (row_id lead)])
        | Inr (c, evs) \<Rightarrow> (c, events @ evs))"

definition process_nurturing ::
  "deliveries \<Rightarrow> lead_row list \<Rightarrow> counts \<times> nurturing_event list" where
  "process_nurturing D leads =
     nurturing_loop D leads
       (\<lparr>messages_sent = 0, emails_sent = 0, leads_processed = 0, errors = 0\<rparr>, [])"

text \<open>The delivery attempt of an event, without its outcome.\<close>

fun attempt_of :: "nurturing_event \<Rightarrow> (string \<times> string \<times> nurturing_message) option" where
  "attempt_of (SendWhatsApp to body ok) = Some (''whatsapp'', to, body)"
| "attempt_of (SendEmail to subject body ok) = Some (''email'', to, body)"
| "attempt_of _ = None"

definition attempts :: "nurturing_event list \<Rightarrow> (string \<times> string \<times> nurturing_message) list" where
  "attempts events = List.map_filter attempt_of events"

text \<open>The failed deliveries among the events.\<close>

fun delivery_failed :: "nurturing_event \<Rightarrow> bool" where
  "delivery_failed (SendWhatsApp to body ok) = (\<not> ok)"
| "delivery_failed (SendEmail to subject body ok) = (\<not> ok)"
| "delivery_failed _ = False"

text \<open>
  The destination of a failed delivery, and the destination that a printed delivery
  error shows.
\<close>

fun failed_destination :: "nurturing_event \<Rightarrow> string option" where
  "failed_destination (SendWhatsApp to body ok) = (if ok then None else Some to)"
| "failed_destination (SendEmail to subject body ok) = (if ok then None else Some to)"
| "failed_destination _ = None"

fun printed_delivery_error :: "nurturing_event \<Rightarrow> string option" where
  "printed_delivery_error (PrintWhatsAppError to) = Some to"
| "printed_delivery_error (PrintEmailError to) = Some to"
| "printed_delivery_error _ = None"

text \<open>A lead on which the body of the \<open>try\<close> raises, whatever the deliveries do.\<close>

definition lead_raises :: "lead_row \<Rightarrow> bool" where
  "lead_raises lead =
     (case row_last_contact lead of
        BadLastContact \<Rightarrow> True
      | lc \<Rightarrow>
          (case evaluate_nurturing_rules lead (case lc of DaysAgo d \<Rightarrow> d | _ \<Rightarrow> 999)
                  (row_score lead) (row_total_interactions lead) of
             None \<Rightarrow> False
           | Some action \<Rightarrow> \<not> returned (generate_nurturing_message (a_template action) lead)))"


section \<open>tools/database.py\<close>

text \<open>
  A request that a function of the module builds on the store client, and what executing
  it gives: an exception (also the \<open>RuntimeError\<close> of \<open>get_client\<close> on a missing
  configuration), or the rows of \<open>result.data\<close> (none for an absent \<open>data\<close>). \<open>'d\<close> is
  the data written, \<open>'r\<close> a row read. A select carries its filters (operator, column,
  value), its order (column, descending) and its limit.
\<close>

datatype 'd request =
  Select string "(string \<times> string \<times> pyval) list" "(string \<times> bool) option" "nat option"
  | Insert string 'd
  | Update string 'd string

datatype 'r executed = Fails string | Data "'r list"

text \<open>Building and executing the request inside the \<open>try\<close>: raises when the client fails.\<close>

definition execute :: "('d request \<Rightarrow> 'r executed) \<Rightarrow> 'd request \<Rightarrow> py_error + 'r list" where
  "execute client req = (case client req of Fails e \<Rightarrow> Inl (Raised e) | Data rows \<Rightarrow> Inr rows)"

text \<open>\<open>result.data[0] if result.data else None\<close>\<close>

definition first_or_none :: "'r list \<Rightarrow> 'r option" where
  "first_or_none rows = (case rows of [] \<Rightarrow> None | r # _ \<Rightarrow> Some r)"

text \<open>\<open>try: return body\<close> \<open>except Exception: return dflt\<close>\<close>

definition except_return :: "'a \<Rightarrow> py_error + 'a \<Rightarrow> py_error + 'a" where
  "except_return dflt body = (case body of Inl e \<Rightarrow> Inr dflt | Inr v \<Rightarrow> Inr v)"

text \<open>The first row of a request, inside the \<open>try\<close>.\<close>

definition first_row :: "('d request \<Rightarrow> 'r executed) \<Rightarrow> 'd request \<Rightarrow> py_error + 'r option" where
  "first_row client req =
     (case execute client req of Inl e \<Rightarrow> Inl e | Inr rows \<Rightarrow> Inr (first_or_none rows))"

definition get_lead_by_phone ::
  "('d request \<Rightarrow> 'r executed) \<Rightarrow> string \<Rightarrow> py_error + 'r option" where
  "get_lead_by_phone client phone_number =
     except_return None
       (first_row client (Select ''leads'' [(''eq'', ''phone'', PStr phone_number)] None None))"

definition get_lead_by_id ::
  "('d request \<Rightarrow> 'r executed) \<Rightarrow> string \<Rightarrow> py_error + 'r option" where
  "get_lead_by_id client lead_id =
     except_return None (first_row client (Select ''leads'' [(''eq'', ''id'', PStr lead_id)] None None))"

definition create_lead :: "('d request \<Rightarrow> 'r executed) \<Rightarrow> 'd \<Rightarrow> py_error + 'r option" where
  "create_lead client data = except_return None (first_row client (Insert ''leads'' data))"

definition update_lead ::
  "('d request \<Rightarrow> 'r executed) \<Rightarrow> string \<Rightarrow> 'd \<Rightarrow> py_error + 'r option" where
  "update_lead client lead_id data =
     except_return None (first_row client (Update ''leads'' data lead_id))"

definition get_all_leads ::
  "('d request \<Rightarrow> 'r executed) \<Rightarrow> string option \<Rightarrow> int option \<Rightarrow> py_error + 'r list" where
  "get_all_leads client status_filter score_min =
     except_return []
       (let query = [];
            query = (case status_filter of
                       None \<Rightarrow> query
                     | Some s \<Rightarrow> if s \<noteq> [] then query @ [(''eq'', ''status'', PStr s)] else query);
            query = (case score_min of
                       None \<Rightarrow> query
                     | Some n \<Rightarrow> query @ [(''gte'', ''score'', PInt n)])
        in execute client (Select ''leads'' query (Some (''last_contact'', True)) None))"

definition get_conversation_by_lead_request :: "string \<Rightarrow> string \<Rightarrow> 'd request" where
  "get_conversation_by_lead_request lead_id channel_name =
     Select ''conversations''
       [(''eq'', ''lead_id'', PStr lead_id), (''eq'', ''channel'', PStr channel_name)] None None"

definition get_conversation_by_lead ::
  "('d request \<Rightarrow> 'r executed) \<Rightarrow> string \<Rightarrow> string \<Rightarrow> py_error + 'r option" where
  "get_conversation_by_lead client lead_id channel_name =
     except_return None
       (first_row client (get_conversation_by_lead_request lead_id channel_name))"

text \<open>\<open>if conversation_id:\<close> an id that is \<open>None\<close> or empty inserts.\<close>

definition upsert_conversation_request :: "string option \<Rightarrow> 'd \<Rightarrow> 'd request" where
  "upsert_conversation_request conversation_id data =
     (case conversation_id of
        None \<Rightarrow> Insert ''conversations'' data
      | Some i \<Rightarrow> if i \<noteq> [] then Update ''conversations'' data i
                  else Insert ''conversations'' data)"

definition upsert_conversation ::
  "('d request \<Rightarrow> 'r executed) \<Rightarrow> string option \<Rightarrow> 'd \<Rightarrow> py_error + 'r option" where
  "upsert_conversation client conversation_id data =
     except_return None (first_row client (upsert_conversation_request conversation_id data))"

definition create_appointment ::
  "('d request \<Rightarrow> 'r executed) \<Rightarrow> 'd \<Rightarrow> py_error + 'r option" where
  "create_appointment client data =
     except_return None (first_row client (Insert ''appointments'' data))"

definition get_appointments_by_lead ::
  "('d request \<Rightarrow> 'r executed) \<Rightarrow> string \<Rightarrow> py_error + 'r list" where
  "get_appointments_by_lead client lead_id =
     except_return []
       (execute client
          (Select ''appointments'' [(''eq'', ''lead_id'', PStr lead_id)] (Some (''datetime_'', True)) None))"

definition update_appointment ::
  "('d request \<Rightarrow> 'r executed) \<Rightarrow> string \<Rightarrow> 'd \<Rightarrow> py_error + 'r option" where
  "update_appointment client appointment_id data =
     except_return None (first_row client (Update ''appointments'' data appointment_id))"

definition create_task :: "('d request \<Rightarrow> 'r executed) \<Rightarrow> 'd \<Rightarrow> py_error + 'r option" where
  "create_task client data = except_return None (first_row client (Insert ''tasks'' data))"

definition get_pending_tasks ::
  "('d request \<Rightarrow> 'r executed) \<Rightarrow> string option \<Rightarrow> py_error + 'r list" where
  "get_pending_tasks client assigned_to =
     except_return []
       (let query = [(''eq'', ''status'', PStr ''pendiente'')];
            query = (case assigned_to of
                       None \<Rightarrow> query
                     | Some a \<Rightarrow> if a \<noteq> [] then query @ [(''eq'', ''assigned_to'', PStr a)]
                                 else query)
        in execute client (Select ''tasks'' query (Some (''due_date'', False)) None))"

definition get_active_leads :: "('d request \<Rightarrow> 'r executed) \<Rightarrow> py_error + 'r list" where
  "get_active_leads client =
     except_return []
       (execute client
          (Select ''leads''
             [(''neq'', ''status'', PStr ''cerrado''), (''neq'', ''status'', PStr ''descartado'')]
             (Some (''last_contact'', True)) (Some 100)))"

section \<open>tools/conversation_manager.py\<close>

text \<open>\<open>Message\<close> and \<open>Conversation\<close>, without their timestamps.\<close>

record Message =
  msg_role :: string
  msg_content :: string
  msg_channel :: "ChannelType option"

record Conversation =
  conv_id :: "string option"
  conv_lead_id :: string
  conv_channel :: ChannelType
  conv_messages :: "Message list"
  conv_summary :: "string option"

text \<open>A row of the conversations table, and the data that \<open>_save_conversation\<close> writes.\<close>

record conv_row =
  cr_id :: string
  cr_messages :: "Message list"
  cr_summary :: "string option"

record conv_data =
  cd_lead_id :: string
  cd_channel :: string
  cd_messages :: "Message list"
  cd_summary :: "string option"

fun channel_value :: "ChannelType \<Rightarrow> string" where
  "channel_value WHATSAPP = ''whatsapp''"
| "channel_value INSTAGRAM = ''instagram''"
| "channel_value EMAIL = ''email''"
| "channel_value TELEFONO = ''telefono''"
| "channel_value WEB = ''web''"
| "channel_value PORTAL = ''portal''"

text \<open>
  The state of the module and of the objects it shares with its callers:
  \<open>objects\<close> holds the \<open>Conversation\<close> objects by reference (the position in the list),
  \<open>active_conversations\<close> is the module dict \<open>_active_conversations\<close> from cache key to
  reference, and \<open>store_log\<close> lists the requests made to the store. The store may answer
  differently over time: \<open>store n\<close> is the client after \<open>n\<close> requests.
\<close>

record cm_state =
  active_conversations :: "(string \<times> nat) list"
  objects :: "Conversation list"
  store_log :: "conv_data request list"

definition cache_key :: "string \<Rightarrow> ChannelType \<Rightarrow> string" where
  "cache_key lead_id chan = lead_id @ ''_'' @ channel_value chan"

definition get_or_create_conversation ::
  "(nat \<Rightarrow> conv_data request \<Rightarrow> conv_row executed) \<Rightarrow> string \<Rightarrow> ChannelType \<Rightarrow> cm_state
     \<Rightarrow> py_error + nat \<times> cm_state" where
  "get_or_create_conversation store lead_id chan st =
     (case map_of (active_conversations st) (cache_key lead_id chan) of
        Some ref \<Rightarrow> Inr (ref, st)
      | None \<Rightarrow>
          (case get_conversation_by_lead (store (length (store_log st))) lead_id
                  (channel_value chan) of
             Inl err \<Rightarrow> Inl err
           | Inr conv \<Rightarrow>
               let conversation =
                     (case conv of
                        Some row \<Rightarrow>
                          \<lparr>conv_id = Some (cr_id row), conv_lead_id = lead_id,
                           conv_channel = chan, conv_messages = cr_messages row,
                           conv_summary = cr_summary row\<rparr>
                      | None \<Rightarrow>
                          \<lparr>conv_id = None, conv_lead_id = lead_id, conv_channel = chan,
                           conv_messages = [], conv_summary = None\<rparr>);
                   ref = length (objects st)
               in Inr (ref,
                       st\<lparr>active_conversations :=
                            (cache_key lead_id chan, ref) # active_conversations st,
                          objects := objects st @ [conversation],
                          store_log := store_log st
                            @ [get_conversation_by_lead_request lead_id (channel_value chan)]\<rparr>)))"

text \<open>\<open>_save_conversation\<close> on the object at a reference.\<close>

definition save_conversation ::
  "(nat \<Rightarrow> conv_data request \<Rightarrow> conv_row executed) \<Rightarrow> nat \<Rightarrow> cm_state \<Rightarrow> py_error + cm_state" where
  "save_conversation store ref st =
     (let conversation = objects st ! ref;
          data = \<lparr>cd_lead_id = conv_lead_id conversation,
                  cd_channel = channel_value (conv_channel conversation),
                  cd_messages = conv_messages conversation, cd_summary = conv_summary conversation\<rparr>
      in case upsert_conversation (store (length (store_log st))) (conv_id conversation) data of
           Inl err \<Rightarrow> Inl err
         | Inr result \<Rightarrow>
             let conversation =
                   (case result of
                      Some row \<Rightarrow>
                        if conv_id conversation = None \<or> conv_id conversation = Some []
                        then conversation\<lparr>conv_id := Some (cr_id row)\<rparr>
                        else conversation
                    | None \<Rightarrow> conversation)
             in Inr (st\<lparr>objects := (objects st)[ref := conversation],
                        store_log := store_log st
                          @ [upsert_conversation_request (conv_id (objects st ! ref)) data]\<rparr>))"

definition add_message ::
  "(nat \<Rightarrow> conv_data request \<Rightarrow> conv_row executed) \<Rightarrow> string \<Rightarrow> string \<Rightarrow> string
     \<Rightarrow> ChannelType \<Rightarrow> cm_state \<Rightarrow> py_error + nat \<times> cm_state" where
  "add_message store lead_id role_name body chan st =
     (case get_or_create_conversation store lead_id chan st of
        Inl err \<Rightarrow> Inl err
      | Inr (ref, st1) \<Rightarrow>
          let message = \<lparr>msg_role = role_name, msg_content = body, msg_channel = Some chan\<rparr>;
              conversation = objects st1 ! ref;
              conversation = conversation\<lparr>conv_messages := conv_messages conversation @ [message]\<rparr>;
              st2 = st1\<lparr>objects := (objects st1)[ref := conversation]\<rparr>
          in case save_conversation store ref st2 of
               Inl err \<Rightarrow> Inl err
             | Inr st3 \<Rightarrow> Inr (ref, st3))"

text \<open>\<open>clear_cache\<close>: the entries of one lead (keys that start with its id), or all of them.\<close>

definition clear_cache :: "string option \<Rightarrow> cm_state \<Rightarrow> cm_state" where
  "clear_cache lead_id st =
     (case lead_id of
        None \<Rightarrow> st\<lparr>active_conversations := []\<rparr>
      | Some l \<Rightarrow>
          if l \<noteq> []
          then st\<lparr>active_conversations :=
                    filter (\<lambda>kv. \<not> starts_with l (fst kv)) (active_conversations st)\<rparr>
          else st\<lparr>active_conversations := []\<rparr>)"

text \<open>Calls of the module by its callers, with no \<open>clear_cache\<close> among them.\<close>

datatype cm_call = GetOrCreate string ChannelType | AddMessage string string string ChannelType

fun run_calls ::
  "(nat \<Rightarrow> conv_data request \<Rightarrow> conv_row executed) \<Rightarrow> cm_call list \<Rightarrow> cm_state
     \<Rightarrow> py_error + cm_state" where
  "run_calls store [] st = Inr st"
| "run_calls store (GetOrCreate lead_id chan # calls) st =
     (case get_or_create_conversation store lead_id chan st of
        Inl err \<Rightarrow> Inl err
      | Inr (ref, st') \<Rightarrow> run_calls store calls st')"
| "run_calls store (AddMessage lead_id role_name body chan # calls) st =
     (case add_message store lead_id role_name body chan st of
        Inl err \<Rightarrow> Inl err
      | Inr (ref, st') \<Rightarrow> run_calls store calls st')"

text \<open>A fresh process: no conversation cached, no object, no request made.\<close>

definition cm_initial :: cm_state where
  "cm_initial = \<lparr>active_conversations = [], objects = [], store_log = []\<rparr>"

text \<open>Every cached reference denotes an object, and no two cache keys share one.\<close>

definition cache_refs_valid :: "cm_state \<Rightarrow> bool" where
  "cache_refs_valid st =
     (list_all (\<lambda>kv. snd kv < length (objects st)) (active_conversations st)
      \<and> distinct (map snd (active_conversations st)))"

text \<open>
  What a later state keeps of an earlier one: every cache entry, every object, and the
  messages of every conversation as a prefix of its later messages.
\<close>

definition cm_extends :: "cm_state \<Rightarrow> cm_state \<Rightarrow> bool" where
  "cm_extends st st' =
     ((\<forall>k r. map_of (active_conversations st) k = Some r
              \<longrightarrow> map_of (active_conversations st') k = Some r)
      \<and> length (objects st) \<le> length (objects st')
      \<and> (\<forall>i < length (objects st).
            \<exists>ms. conv_messages (objects st' ! i) = conv_messages (objects st ! i) @ ms))"

section \<open>Concrete leads and extractions\<close>

text \<open>Inputs on which the theorems below are evaluated.\<close>

definition lead_new :: Lead where
  "lead_new = \<lparr>id' = Some ''L1'', name = PNone, phone = Some ''+34600000000'', channel = WHATSAPP,
     status = NUEVO, score = 0, score_label = CURIOSO, preferences = LeadPreferences_default,
     total_interactions = 1\<rparr>"

definition ext_keen :: pydict where
  "ext_keen = [(''interest_level'', PStr ''muy alto''), (''wants_visit'', PBool True)]"

definition ext_cool :: pydict where
  "ext_cool = [(''interest_level'', PStr ''bajo''), (''wants_visit'', PBool False)]"

definition ext_full :: pydict where
  "ext_full =
     [(''operation'', PStr ''comprar''), (''property_type'', PStr ''piso''),
      (''zone'', PStr ''Centro''), (''min_budget'', PNone), (''max_budget'', PInt 250000),
      (''bedrooms'', PInt 3), (''urgency'', PStr ''inmediata''),
      (''purpose'', PStr ''primera vivienda''), (''name'', PStr ''Ana''),
      (''interest_level'', PStr ''alto''), (''wants_visit'', PBool True),
      (''wants_human_agent'', PBool False)]"

definition ext_other :: pydict where
  "ext_other = [(''zone'', PStr ''Norte''), (''max_budget'', PInt 900000), (''name'', PStr ''Luis'')]"

definition lead_known :: Lead where
  "lead_known =
     lead_new\<lparr>name := PStr ''Ana'',
               preferences := LeadPreferences_default\<lparr>zone := PStr ''Centro'',
                                                       max_budget := PInt 200000\<rparr>\<rparr>"

text \<open>Collaborators that find nothing, and a reasoning service that asks for a search on every call.\<close>

definition no_collaborators :: "(unit, unit, unit) collaborators" where
  "no_collaborators =
     \<lparr>search_properties_by_criteria = (\<lambda>_ _ _ _ _. Inr []),
      get_property_by_reference = (\<lambda>_. Inr None),
      strptime = (\<lambda>_ _. None),
      schedule_visit = (\<lambda>_ _ _ _ _. Inr False),
      get_available_slots = (\<lambda>_. Inr []),
      calculate_mortgage = (\<lambda>_ _ _ _. Inr ()),
      handoff_to_human = (\<lambda>_ _ _ _ _ _ _. Inr ()),
      format_property_for_chat = (\<lambda>_. Inr []),
      format_available_slots_for_chat = (\<lambda>_ _. Inr []),
      format_mortgage_for_chat = (\<lambda>_. Inr [])\<rparr>"

definition always_searching :: "nat \<Rightarrow> llm_outcome" where
  "always_searching k =
     Returns \<lparr>finish_reason = ''tool_calls'',
              tool_calls = [\<lparr>tc_id = ''call'', tc_name = ''search_properties'',
                             tc_arguments = JsonObject [(''zone'', PStr ''Centro'')]\<rparr>],
              content = None\<rparr>"

text \<open>Deliveries that all fail, a stale hot lead (WhatsApp rule) and a stale cold lead (email rule).\<close>

definition failing_deliveries :: deliveries where
  "failing_deliveries =
     \<lparr>twilio_create = (\<lambda>_ _. CreateRaises), sendgrid_post = (\<lambda>_ _ _. False)\<rparr>"

definition row_hot_stale :: lead_row where
  "row_hot_stale =
     \<lparr>row_id = Some ''L1'', row_last_contact = DaysAgo 3, row_score = 80,
      row_total_interactions = 6, row_phone = ''+34600000000'', row_email = ''ana@example.com'',
      row_name = ''Ana'', row_preferences = Some [(''zone'', PStr ''Centro'')]\<rparr>"

definition row_cold_stale :: lead_row where
  "row_cold_stale =
     \<lparr>row_id = Some ''L2'', row_last_contact = DaysAgo 10, row_score = 10,
      row_total_interactions = 1, row_phone = ''+34600000001'', row_email = ''luis@example.com'',
      row_name = ''Luis'', row_preferences = Some []\<rparr>"

text \<open>
  A store that is down (every request fails), the calls of a short session, and the
  states of the conversation cache after the first call and after the session.
\<close>

definition store_down :: "nat \<Rightarrow> conv_data request \<Rightarrow> conv_row executed" where
  "store_down n req = Fails ''connection refused''"

definition session_calls :: "cm_call list" where
  "session_calls =
     [AddMessage ''L1'' ''user'' ''hola'' WHATSAPP, GetOrCreate ''L1'' EMAIL,
      AddMessage ''L2'' ''user'' ''buenas'' WHATSAPP]"

definition cm_first :: cm_state where
  "cm_first = snd (projr (get_or_create_conversation store_down ''L1'' WHATSAPP cm_initial))"

definition cm_later :: cm_state where
  "cm_later = projr (run_calls store_down session_calls cm_first)"

section \<open>Fill-only merge\<close>

lemma getattr_setattr:
  "getattr (setattr p k v) k' = (if k' = k then v else getattr p k')"
  by (cases k; cases k'; simp)

lemma merge_field_other:
  "k \<noteq> snd kv \<Longrightarrow> getattr (fst (merge_field e kv st)) k = getattr (fst st) k"
  by (simp add: merge_field_def Let_def getattr_setattr)

lemma merge_field_same:
  "getattr (fst (merge_field e (ek, k) st)) k =
     (if dict_get e ek \<noteq> PNone \<and> getattr (fst st) k = PNone then dict_get e ek
      else getattr (fst st) k)"
  by (simp add: merge_field_def Let_def getattr_setattr)

lemma fold_merge_other:
  "k \<notin> snd ` set ks \<Longrightarrow> getattr (fst (fold (merge_field e) ks st)) k = getattr (fst st) k"
proof (induction ks arbitrary: st)
  case Nil
  show ?case by simp
next
  case (Cons kv ks)
  from Cons.prems have ne: "k \<noteq> snd kv" and rest: "k \<notin> snd ` set ks" by auto
  have "getattr (fst (fold (merge_field e) ks (merge_field e kv st))) k
          = getattr (fst (merge_field e kv st)) k"
    using Cons.IH [OF rest] .
  with ne show ?case by (simp add: merge_field_other)
qed

lemma fold_merge_field:
  "distinct (map snd ks) \<Longrightarrow> (ek, k) \<in> set ks \<Longrightarrow>
   getattr (fst (fold (merge_field e) ks st)) k =
     (if dict_get e ek \<noteq> PNone \<and> getattr (fst st) k = PNone then dict_get e ek
      else getattr (fst st) k)"
proof (induction ks arbitrary: st)
  case Nil
  then show ?case by simp
next
  case (Cons kv ks)
  show ?case
  proof (cases "kv = (ek, k)")
    case True
    with Cons.prems(1) have "k \<notin> snd ` set ks" by auto
    then have "getattr (fst (fold (merge_field e) ks (merge_field e kv st))) k
                 = getattr (fst (merge_field e kv st)) k"
      by (rule fold_merge_other)
    with True show ?thesis by (simp add: merge_field_same)
  next
    case False
    with Cons.prems have mem: "(ek, k) \<in> set ks" and d: "distinct (map snd ks)" by auto
    from mem Cons.prems(1) have "k \<noteq> snd kv" by (auto simp: image_iff)
    then have "getattr (fst (merge_field e kv st)) k = getattr (fst st) k"
      by (rule merge_field_other)
    with Cons.IH [OF d mem, of "merge_field e kv st"] show ?thesis by simp
  qed
qed

lemma fold_merge_keeps:
  "getattr (fst st) k \<noteq> PNone \<Longrightarrow> getattr (fst (fold (merge_field e) ks st)) k = getattr (fst st) k"
proof (induction ks arbitrary: st)
  case Nil
  show ?case by simp
next
  case (Cons kv ks)
  have step: "getattr (fst (merge_field e kv st)) k = getattr (fst st) k"
    using Cons.prems by (auto simp: merge_field_def Let_def getattr_setattr)
  with Cons.prems Cons.IH [of "merge_field e kv st"] show ?case by simp
qed

lemma update_unfold:
  "update_lead_from_extraction lead e =
     (let m = lead\<lparr>name := (if truthy (dict_get e ''name'') \<and> \<not> truthy (name lead)
                               then dict_get e ''name'' else name lead),
                     preferences := fst (fold (merge_field e) field_map (preferences lead, False))\<rparr>;
          sc = calculate_lead_score m (Some e);
          l' = m\<lparr>score := sc, score_label := get_score_label sc,
            status := (if sc \<ge> LEAD_SCORE_HOT \<and> status lead = NUEVO then CUALIFICADO
                       else if sc \<ge> LEAD_SCORE_WARM \<and> status lead = NUEVO then CONTACTADO
                       else status lead)\<rparr>
      in (l', [UpdateLead (id' lead)
         \<lparr>upd_name = name l', upd_preferences = preferences l', upd_score = sc,
          upd_score_label = get_score_label sc, upd_status = status l'\<rparr>]
      @ (if sc \<ge> LEAD_SCORE_HOT then [create_hot_lead_task l'] else [])
      @ (if truthy (dict_get e ''wants_human_agent'') then [create_human_handoff_task l'] else [])))"
  by (cases "truthy (dict_get e ''name'')"; cases "truthy (name lead)";
      simp add: update_lead_from_extraction_def Let_def split_def)

lemma update_preferences:
  "preferences (fst (update_lead_from_extraction lead e)) =
     fst (fold (merge_field e) field_map (preferences lead, False))"
  by (simp add: update_unfold Let_def)

lemma update_name:
  "name (fst (update_lead_from_extraction lead e)) =
     (if truthy (dict_get e ''name'') \<and> \<not> truthy (name lead) then dict_get e ''name''
      else name lead)"
  by (simp add: update_unfold Let_def)

lemma update_total_interactions:
  "total_interactions (fst (update_lead_from_extraction lead e)) = total_interactions lead"
  by (simp add: update_unfold Let_def)

lemma calculate_lead_score_cong:
  "preferences l = preferences l' \<Longrightarrow> name l = name l' \<Longrightarrow>
   total_interactions l = total_interactions l' \<Longrightarrow>
   calculate_lead_score l e = calculate_lead_score l' e"
  by (simp add: calculate_lead_score_def)

lemma update_score:
  "score (fst (update_lead_from_extraction lead e)) =
     calculate_lead_score (fst (update_lead_from_extraction lead e)) (Some e)"
proof -
  let ?m = "lead\<lparr>name := (if truthy (dict_get e ''name'') \<and> \<not> truthy (name lead)
                               then dict_get e ''name'' else name lead),
                     preferences := fst (fold (merge_field e) field_map (preferences lead, False))\<rparr>"
  have "score (fst (update_lead_from_extraction lead e)) = calculate_lead_score ?m (Some e)"
    by (simp add: update_unfold Let_def)
  also have "\<dots> = calculate_lead_score (fst (update_lead_from_extraction lead e)) (Some e)"
    by (rule calculate_lead_score_cong) (simp_all add: update_unfold Let_def)
  finally show ?thesis .
qed

lemma update_status:
  "status (fst (update_lead_from_extraction lead e)) =
     (if status lead = NUEVO
      then (if LEAD_SCORE_HOT \<le> score (fst (update_lead_from_extraction lead e)) then CUALIFICADO
            else if LEAD_SCORE_WARM \<le> score (fst (update_lead_from_extraction lead e)) then CONTACTADO
            else NUEVO)
      else status lead)"
  by (simp add: update_unfold Let_def)

lemma update_calls:
  "snd (update_lead_from_extraction lead e) =
     (let l' = fst (update_lead_from_extraction lead e) in
      [UpdateLead (id' l')
         \<lparr>upd_name = name l', upd_preferences = preferences l', upd_score = score l',
          upd_score_label = score_label l', upd_status = status l'\<rparr>]
      @ (if score l' \<ge> LEAD_SCORE_HOT then [create_hot_lead_task l'] else [])
      @ (if truthy (dict_get e ''wants_human_agent'') then [create_human_handoff_task l'] else []))"
  by (simp add: update_unfold Let_def)

lemma distinct_field_map: "distinct (map snd field_map)"
  by (simp add: field_map_def)

lemma passes_keep_field:
  "getattr (preferences lead) k \<noteq> PNone \<Longrightarrow>
   getattr (preferences (qualification_passes lead es)) k = getattr (preferences lead) k"
proof (induction es arbitrary: lead)
  case Nil
  show ?case by simp
next
  case (Cons e es)
  have one: "getattr (preferences (fst (update_lead_from_extraction lead e))) k
               = getattr (preferences lead) k"
    using Cons.prems by (simp add: update_preferences fold_merge_keeps)
  with Cons.prems Cons.IH [of "fst (update_lead_from_extraction lead e)"] show ?case by simp
qed

lemma passes_keep_name:
  "truthy (name lead) \<Longrightarrow> name (qualification_passes lead es) = name lead"
proof (induction es arbitrary: lead)
  case Nil
  show ?case by simp
next
  case (Cons e es)
  have one: "name (fst (update_lead_from_extraction lead e)) = name lead"
    using Cons.prems by (simp add: update_name)
  with Cons.prems Cons.IH [of "fst (update_lead_from_extraction lead e)"] show ?case by simp
qed

text \<open>
  Claim C1. Fill-only merge: through any sequence of qualification passes a preference
  field that is set (not None) keeps its value, and so does a name that is set (a
  non-empty name; the source tests the name by truthiness). In one pass every field of
  \<open>field_map\<close> receives the extracted value exactly when its current value is None and
  the extraction has a value for it, every other attribute is left alone, and the name
  is taken from the extraction exactly when the lead has none.
\<close>

theorem fill_only_merge:
  "(getattr (preferences lead) k \<noteq> PNone \<longrightarrow>
      getattr (preferences (qualification_passes lead es)) k = getattr (preferences lead) k)
   \<and> (truthy (name lead) \<longrightarrow> name (qualification_passes lead es) = name lead)
   \<and> (\<forall>(ek, k') \<in> set field_map.
        getattr (preferences (fst (update_lead_from_extraction lead e))) k' =
          (if getattr (preferences lead) k' = PNone \<and> dict_get e ek \<noteq> PNone
           then dict_get e ek else getattr (preferences lead) k'))
   \<and> (k2 \<notin> snd ` set field_map \<longrightarrow>
        getattr (preferences (fst (update_lead_from_extraction lead e))) k2
          = getattr (preferences lead) k2)
   \<and> name (fst (update_lead_from_extraction lead e)) =
        (if \<not> truthy (name lead) \<and> truthy (dict_get e ''name'') then dict_get e ''name''
         else name lead)"
proof (intro conjI impI)
  assume "getattr (preferences lead) k \<noteq> PNone"
  then show "getattr (preferences (qualification_passes lead es)) k = getattr (preferences lead) k"
    by (rule passes_keep_field)
next
  assume "truthy (name lead)"
  then show "name (qualification_passes lead es) = name lead"
    by (rule passes_keep_name)
next
  show "\<forall>(ek, k') \<in> set field_map.
        getattr (preferences (fst (update_lead_from_extraction lead e))) k' =
          (if getattr (preferences lead) k' = PNone \<and> dict_get e ek \<noteq> PNone
           then dict_get e ek else getattr (preferences lead) k')"
  proof (clarify)
    fix ek k' assume "(ek, k') \<in> set field_map"
    from fold_merge_field [OF distinct_field_map this, of e "(preferences lead, False)"]
    show "getattr (preferences (fst (update_lead_from_extraction lead e))) k' =
          (if getattr (preferences lead) k' = PNone \<and> dict_get e ek \<noteq> PNone
           then dict_get e ek else getattr (preferences lead) k')"
      by (simp add: update_preferences)
  qed
next
  assume "k2 \<notin> snd ` set field_map"
  then show "getattr (preferences (fst (update_lead_from_extraction lead e))) k2
          = getattr (preferences lead) k2"
    by (simp add: update_preferences fold_merge_other)
next
  show "name (fst (update_lead_from_extraction lead e)) =
        (if \<not> truthy (name lead) \<and> truthy (dict_get e ''name'') then dict_get e ''name''
         else name lead)"
    by (simp add: update_name)
qed

text \<open>
  Claim C1, at a lead whose zone, budget and name are known, with extractions that state
  another zone, another budget and another name.
\<close>

theorem fill_only_merge_witness:
  "getattr (preferences lead_known) K_zone \<noteq> PNone
   \<and> getattr (preferences (qualification_passes lead_known [ext_other, ext_full])) K_zone
        = PStr ''Centro''
   \<and> truthy (name lead_known)
   \<and> name (qualification_passes lead_known [ext_other, ext_full]) = PStr ''Ana''
   \<and> (''max_budget'', K_max_budget) \<in> set field_map
   \<and> getattr (preferences (fst (update_lead_from_extraction lead_known ext_other))) K_max_budget
        = PInt 200000
   \<and> (''bedrooms'', K_bedrooms) \<in> set field_map
   \<and> getattr (preferences (fst (update_lead_from_extraction lead_known ext_full))) K_bedrooms
        = PInt 3
   \<and> K_notes \<notin> snd ` set field_map
   \<and> getattr (preferences (fst (update_lead_from_extraction lead_known ext_other))) K_notes = PNone"
proof -
  have z: "getattr (preferences lead_known) K_zone = PStr ''Centro''" by code_simp
  have n: "name lead_known = PStr ''Ana''" by code_simp
  have b: "getattr (preferences lead_known) K_max_budget = PInt 200000" by code_simp
  have r: "getattr (preferences lead_known) K_bedrooms = PNone" by code_simp
  have r': "dict_get ext_full ''bedrooms'' = PInt 3" by code_simp
  have m: "(''max_budget'', K_max_budget) \<in> set field_map" by code_simp
  have m': "(''bedrooms'', K_bedrooms) \<in> set field_map" by code_simp
  have o: "K_notes \<notin> snd ` set field_map" by code_simp
  have o': "getattr (preferences lead_known) K_notes = PNone" by code_simp
  note inst = fill_only_merge [of lead_known K_zone "[ext_other, ext_full]" _ K_notes]
  have c1: "getattr (preferences (qualification_passes lead_known [ext_other, ext_full])) K_zone
        = PStr ''Centro''"
    using inst [of ext_other] z by simp
  have c2: "name (qualification_passes lead_known [ext_other, ext_full]) = PStr ''Ana''"
    using inst [of ext_other] n by simp
  have c3: "getattr (preferences (fst (update_lead_from_extraction lead_known ext_other))) K_max_budget
        = PInt 200000"
    using inst [of ext_other] m b by (auto dest: bspec [where x = "(''max_budget'', K_max_budget)"])
  have c4: "getattr (preferences (fst (update_lead_from_extraction lead_known ext_full))) K_bedrooms
        = PInt 3"
    using inst [of ext_full] m' r r' by (auto dest: bspec [where x = "(''bedrooms'', K_bedrooms)"])
  have c5: "getattr (preferences (fst (update_lead_from_extraction lead_known ext_other))) K_notes = PNone"
    using inst [of ext_other] o o' by simp
  from z n m m' o c1 c2 c3 c4 c5 show ?thesis by simp
qed

section \<open>Score range and tiers\<close>

lemma add_if_nonneg: "0 \<le> n \<Longrightarrow> 0 \<le> sc \<Longrightarrow> 0 \<le> add_if c n sc"
  by (simp add: add_if_def)

lemma interest_points_nonneg: "0 \<le> interest_points v"
  by (simp add: interest_points_def)

lemma extraction_points_nonneg: "0 \<le> sc \<Longrightarrow> 0 \<le> extraction_points e sc"
  by (auto simp: extraction_points_def Let_def add_if_def interest_points_nonneg
      split: option.splits intro: add_nonneg_nonneg)

lemma calculate_lead_score_range:
  "0 \<le> calculate_lead_score lead e \<and> calculate_lead_score lead e \<le> 100"
proof
  show "calculate_lead_score lead e \<le> 100"
    by (simp add: calculate_lead_score_def Let_def)
  show "0 \<le> calculate_lead_score lead e"
    unfolding calculate_lead_score_def Let_def
    by (intro min.boundedI add_if_nonneg extraction_points_nonneg) (simp_all add: add_if_nonneg)
qed

text \<open>
  Claim C3. \<open>calculate_lead_score\<close> is always in [0,100], and \<open>get_score_label\<close>
  maps 25 to curioso, 26 and 50 to interesado, 51 and 75 to caliente, 76 to listo.
\<close>

theorem score_range_and_tiers:
  "0 \<le> calculate_lead_score lead extracted \<and> calculate_lead_score lead extracted \<le> 100
   \<and> get_score_label 25 = CURIOSO \<and> get_score_label 26 = INTERESADO
   \<and> get_score_label 50 = INTERESADO \<and> get_score_label 51 = CALIENTE
   \<and> get_score_label 75 = CALIENTE \<and> get_score_label 76 = LISTO"
  using calculate_lead_score_range [of lead extracted]
  by (simp add: get_score_label_def LEAD_SCORE_COLD_def LEAD_SCORE_WARM_def LEAD_SCORE_HOT_def)

section \<open>Score across passes\<close>

lemma add_if_mono:
  "(c \<Longrightarrow> c') \<Longrightarrow> 0 \<le> n \<Longrightarrow> s \<le> s' \<Longrightarrow> add_if c n s \<le> add_if c' n s'"
  by (auto simp: add_if_def)

lemma extraction_points_shift: "extraction_points e s = s + extraction_points e 0"
  by (auto simp: extraction_points_def Let_def add_if_def split: option.splits)

lemma extraction_points_mono:
  assumes "s \<le> s'" and "extraction_points e 0 \<le> extraction_points e' 0"
  shows "extraction_points e s \<le> extraction_points e' s'"
proof -
  have "extraction_points e s = s + extraction_points e 0"
    by (rule extraction_points_shift)
  also have "\<dots> \<le> s' + extraction_points e' 0"
    using assms by (rule add_mono)
  also have "\<dots> = extraction_points e' s'"
    by (rule extraction_points_shift [symmetric])
  finally show ?thesis .
qed

lemma urgency_mono:
  "(truthy u \<Longrightarrow> u' = u) \<Longrightarrow> s \<le> s' \<Longrightarrow>
   (if truthy u then add_if (u = a \<or> u = b) 10 (s + 10) else s)
     \<le> (if truthy u' then add_if (u' = a \<or> u' = b) 10 (s' + 10) else s')"
  by (auto simp: add_if_def)

lemma calculate_lead_score_mono:
  assumes prefs: "\<And>k. truthy (getattr (preferences l) k)
                    \<Longrightarrow> getattr (preferences l') k = getattr (preferences l) k"
    and nm: "truthy (name l) \<Longrightarrow> name l' = name l"
    and ti: "total_interactions l \<le> total_interactions l'"
    and sig: "extraction_points e 0 \<le> extraction_points e' 0"
  shows "calculate_lead_score l e \<le> calculate_lead_score l' e'"
proof -
  have op: "truthy (operation (preferences l)) \<Longrightarrow> truthy (operation (preferences l'))"
    using prefs [of K_operation] by simp
  have pt: "truthy (property_type (preferences l)) \<Longrightarrow> truthy (property_type (preferences l'))"
    using prefs [of K_property_type] by simp
  have zn: "truthy (zone (preferences l)) \<Longrightarrow> truthy (zone (preferences l'))"
    using prefs [of K_zone] by simp
  have bu: "truthy (max_budget (preferences l)) \<or> truthy (min_budget (preferences l))
     \<Longrightarrow> truthy (max_budget (preferences l')) \<or> truthy (min_budget (preferences l'))"
    using prefs [of K_max_budget] prefs [of K_min_budget] by auto
  have be: "truthy (bedrooms (preferences l)) \<Longrightarrow> truthy (bedrooms (preferences l'))"
    using prefs [of K_bedrooms] by simp
  have ur: "truthy (urgency (preferences l)) \<Longrightarrow> urgency (preferences l') = urgency (preferences l)"
    using prefs [of K_urgency] by simp
  have pu: "truthy (purpose (preferences l)) \<Longrightarrow> truthy (purpose (preferences l'))"
    using prefs [of K_purpose] by simp
  have na: "truthy (name l) \<Longrightarrow> truthy (name l')"
    using nm by simp
  have t3: "3 \<le> total_interactions l \<Longrightarrow> 3 \<le> total_interactions l'"
    and t5: "5 \<le> total_interactions l \<Longrightarrow> 5 \<le> total_interactions l'"
    using ti by simp_all
  show ?thesis
    unfolding calculate_lead_score_def Let_def
    apply (rule min.mono [OF _ order_refl])
    apply (rule add_if_mono, erule t5, simp)
    apply (rule add_if_mono, erule t3, simp)
    apply (rule extraction_points_mono [OF _ sig])
    apply (rule add_if_mono, erule na, simp)
    apply (rule add_if_mono, erule pu, simp)
    apply (rule urgency_mono, erule ur)
    apply (rule add_if_mono, erule be, simp)
    apply (rule add_if_mono, erule bu, simp)
    apply (rule add_if_mono, erule zn, simp)
    apply (rule add_if_mono, erule pt, simp)
    apply (rule add_if_mono, erule op, simp)
    apply simp
    done
qed

lemma truthy_not_None: "truthy v \<Longrightarrow> v \<noteq> PNone"
  by auto

lemma merge_never_lowers:
  assumes "extraction_points x 0 \<le> extraction_points y 0"
  shows "calculate_lead_score lead x \<le> calculate_lead_score (fst (update_lead_from_extraction lead e)) y"
proof (rule calculate_lead_score_mono)
  fix k assume "truthy (getattr (preferences lead) k)"
  then have "getattr (preferences lead) k \<noteq> PNone" by (rule truthy_not_None)
  then show "getattr (preferences (fst (update_lead_from_extraction lead e))) k
               = getattr (preferences lead) k"
    by (simp add: update_preferences fold_merge_keeps)
next
  assume "truthy (name lead)"
  then show "name (fst (update_lead_from_extraction lead e)) = name lead"
    by (simp add: update_name)
next
  show "total_interactions lead \<le> total_interactions (fst (update_lead_from_extraction lead e))"
    by (simp add: update_total_interactions)
next
  show "extraction_points x 0 \<le> extraction_points y 0" by (rule assms)
qed

text \<open>
  Claim C2 fails as stated: after a pass whose extraction reports very high interest and
  a wish to visit (score 30), a pass whose extraction reports low interest recomputes
  the score from scratch and yields 0.
\<close>

theorem score_can_decrease:
  "score (fst (update_lead_from_extraction
                 (fst (update_lead_from_extraction lead_new ext_keen)) ext_cool))
     < score (fst (update_lead_from_extraction lead_new ext_keen))"
  by code_simp

text \<open>
  Claim C2, amended. Over two successive passes the score does not decrease whenever the
  interest and visit points of the second extraction are at least those of the first;
  and the profile part of the score (no extraction) never decreases in a pass.
\<close>

theorem score_after_pass_monotone_in_signals:
  "(extraction_points (Some e1) 0 \<le> extraction_points (Some e2) 0 \<longrightarrow>
      score (fst (update_lead_from_extraction lead e1))
        \<le> score (fst (update_lead_from_extraction (fst (update_lead_from_extraction lead e1)) e2)))
   \<and> calculate_lead_score lead None
        \<le> calculate_lead_score (fst (update_lead_from_extraction lead e1)) None"
proof (intro conjI impI)
  let ?l1 = "fst (update_lead_from_extraction lead e1)"
  let ?l2 = "fst (update_lead_from_extraction ?l1 e2)"
  assume sig: "extraction_points (Some e1) 0 \<le> extraction_points (Some e2) 0"
  have "score ?l1 = calculate_lead_score ?l1 (Some e1)"
    by (rule update_score)
  also have "\<dots> \<le> calculate_lead_score ?l2 (Some e2)"
    using sig by (rule merge_never_lowers)
  also have "\<dots> = score ?l2"
    by (rule update_score [symmetric])
  finally show "score ?l1 \<le> score ?l2" .
next
  show "calculate_lead_score lead None
        \<le> calculate_lead_score (fst (update_lead_from_extraction lead e1)) None"
    by (rule merge_never_lowers) simp
qed

text \<open>
  Claim C2, amended, at a new lead with a low-interest extraction followed by a
  high-interest one.
\<close>

theorem score_after_pass_monotone_in_signals_witness:
  "extraction_points (Some ext_cool) 0 \<le> extraction_points (Some ext_keen) 0
   \<and> score (fst (update_lead_from_extraction lead_new ext_cool))
        \<le> score (fst (update_lead_from_extraction
                         (fst (update_lead_from_extraction lead_new ext_cool)) ext_keen))"
proof -
  have h: "extraction_points (Some ext_cool) 0 \<le> extraction_points (Some ext_keen) 0"
    by code_simp
  with score_after_pass_monotone_in_signals [of ext_cool ext_keen lead_new] show ?thesis
    by blast
qed

section \<open>Lifecycle and follow-up task\<close>

text \<open>
  Claim C4. A lead in status nuevo becomes cualificado when the recomputed score reaches
  \<open>LEAD_SCORE_HOT\<close>, contactado when it reaches \<open>LEAD_SCORE_WARM\<close>, and stays nuevo
  otherwise; a lead in any other status keeps it. The score compared is the score
  recomputed on the merged profile.
\<close>

theorem lifecycle_transition:
  "status (fst (update_lead_from_extraction lead e)) =
     (if status lead = NUEVO
      then (if LEAD_SCORE_HOT \<le> score (fst (update_lead_from_extraction lead e)) then CUALIFICADO
            else if LEAD_SCORE_WARM \<le> score (fst (update_lead_from_extraction lead e)) then CONTACTADO
            else NUEVO)
      else status lead)
   \<and> score (fst (update_lead_from_extraction lead e)) =
       calculate_lead_score (fst (update_lead_from_extraction lead e)) (Some e)"
  using update_status [of lead e] update_score [of lead e] by blast

text \<open>
  Claim C5 fails as stated: a lead that a first pass left at score 100 gets the hot-lead
  task again from the next pass, although no crossing occurs on that call.
\<close>

theorem hot_task_again_when_already_hot:
  "LEAD_SCORE_HOT \<le> score (fst (update_lead_from_extraction lead_new ext_full))
   \<and> create_hot_lead_task
        (fst (update_lead_from_extraction (fst (update_lead_from_extraction lead_new ext_full)) ext_cool))
      \<in> set (snd (update_lead_from_extraction
                     (fst (update_lead_from_extraction lead_new ext_full)) ext_cool))"
  by code_simp

text \<open>
  Claim C5, amended. A pass creates the hot-lead task exactly when the recomputed score
  is at least \<open>LEAD_SCORE_HOT\<close>, whatever the score was before the pass.
\<close>

theorem hot_task_iff_hot_score:
  "create_hot_lead_task (fst (update_lead_from_extraction lead e))
       \<in> set (snd (update_lead_from_extraction lead e))
     \<longleftrightarrow> LEAD_SCORE_HOT \<le> score (fst (update_lead_from_extraction lead e))"
  by (simp add: update_calls Let_def create_hot_lead_task_def create_human_handoff_task_def)


section \<open>Tool dispatch and tool-calling loop\<close>

lemma tool_rounds_calls: "snd (tool_rounds C client ctx rounds calls messages) \<le> calls + rounds"
proof (induction rounds arbitrary: calls messages)
  case 0
  show ?case by simp
next
  case (Suc rounds)
  show ?case
  proof (cases "client calls")
    case (Raises e)
    then show ?thesis
      using Suc.IH [of "Suc calls" messages] by simp
  next
    case (Returns choice)
    show ?thesis
    proof (cases "finish_reason choice = ''tool_calls'' \<and> tool_calls choice \<noteq> []")
      case False
      with Returns show ?thesis by auto
    next
      case True
      show ?thesis
      proof (cases "run_tool_calls C ctx (tool_calls choice) (messages @ [AssistantMsg choice])")
        case (Inl err)
        with Returns True show ?thesis by simp
      next
        case (Inr messages')
        with Returns True Suc.IH [of "Suc calls" messages'] show ?thesis by simp
      qed
    qed
  qed
qed

lemma run_tool_calls_returns:
  "list_all (\<lambda>tc. returned (execute_tool_call C (tc_name tc)
                       (case tc_arguments tc of JSONDecodeError \<Rightarrow> [] | JsonObject d \<Rightarrow> d) ctx)) tcs
   \<Longrightarrow> \<exists>messages'. run_tool_calls C ctx tcs messages = Inr messages'"
proof (induction tcs arbitrary: messages)
  case Nil
  show ?case by simp
next
  case (Cons tc tcs)
  then obtain result where
    "execute_tool_call C (tc_name tc)
       (case tc_arguments tc of JSONDecodeError \<Rightarrow> [] | JsonObject d \<Rightarrow> d) ctx = Inr result"
    by (auto simp: returned_def split: sum.splits)
  with Cons show ?case by (simp add: Let_def)
qed

lemma tool_rounds_exhausted:
  "(\<And>k. calls \<le> k \<Longrightarrow> k < calls + rounds \<Longrightarrow> round_goes_on C ctx (client k)) \<Longrightarrow>
   tool_rounds C client ctx rounds calls messages = (Inr STILL_PROCESSING, calls + rounds)"
proof (induction rounds arbitrary: calls messages)
  case 0
  show ?case by simp
next
  case (Suc rounds)
  have now: "round_goes_on C ctx (client calls)"
    by (rule Suc.prems) simp_all
  have later: "\<And>messages'. tool_rounds C client ctx rounds (Suc calls) messages'
                 = (Inr STILL_PROCESSING, Suc calls + rounds)"
    by (rule Suc.IH) (simp add: Suc.prems)
  show ?case
  proof (cases "client calls")
    case (Raises e)
    with now later show ?thesis by (simp add: round_goes_on_def)
  next
    case (Returns choice)
    with now have tc: "finish_reason choice = ''tool_calls''" "tool_calls choice \<noteq> []"
      and ok: "list_all (\<lambda>tc. returned (execute_tool_call C (tc_name tc)
                       (case tc_arguments tc of JSONDecodeError \<Rightarrow> [] | JsonObject d \<Rightarrow> d) ctx))
                 (tool_calls choice)"
      by (simp_all add: round_goes_on_def)
    from run_tool_calls_returns [OF ok] obtain messages' where
      "run_tool_calls C ctx (tool_calls choice) (messages @ [AssistantMsg choice]) = Inr messages'"
      by blast
    with Returns tc later show ?thesis by simp
  qed
qed

text \<open>
  Claim C7. Whatever the messages, the outcomes of the reasoning service and the
  collaborators, one invocation of the tool-calling loop makes at most
  \<open>max_tool_rounds\<close> calls of the reasoning service; and when every round of the
  budget goes on to the next one (a rate-limit exception, or tool requests that all
  return), all \<open>max_tool_rounds\<close> calls are made and the fixed still-processing reply
  is returned.
\<close>

theorem tool_loop_bounded:
  "snd (generate_with_tools C client lead_context max_tool_rounds messages) \<le> nat max_tool_rounds
   \<and> ((\<forall>k < nat max_tool_rounds. round_goes_on C lead_context (client k)) \<longrightarrow>
        generate_with_tools C client lead_context max_tool_rounds messages
          = (Inr STILL_PROCESSING, nat max_tool_rounds))"
proof (intro conjI impI)
  show "snd (generate_with_tools C client lead_context max_tool_rounds messages) \<le> nat max_tool_rounds"
    using tool_rounds_calls [of C client lead_context "nat max_tool_rounds" 0 messages]
    by (simp add: generate_with_tools_def)
next
  assume "\<forall>k < nat max_tool_rounds. round_goes_on C lead_context (client k)"
  then show "generate_with_tools C client lead_context max_tool_rounds messages
          = (Inr STILL_PROCESSING, nat max_tool_rounds)"
    using tool_rounds_exhausted [of 0 "nat max_tool_rounds" C lead_context client messages]
    by (simp add: generate_with_tools_def)
qed

text \<open>
  Claim C6, at the failing input. With the empty argument dict (which is also what a
  \<open>JSONDecodeError\<close> is coalesced to) \<open>get_property_details\<close> raises
  \<open>KeyError('reference')\<close> and \<open>calculate_mortgage\<close> raises \<open>KeyError('price')\<close>,
  whatever the collaborators do; the loop does not catch it, so the invocation ends
  with that exception after its first call of the reasoning service.
\<close>

theorem missing_required_key_raises:
  "execute_tool_call C ''get_property_details'' [] lead_context = Inl (KeyError ''reference'')
   \<and> execute_tool_call C ''calculate_mortgage'' [] lead_context = Inl (KeyError ''price'')
   \<and> generate_with_tools C
        (\<lambda>k. Returns \<lparr>finish_reason = ''tool_calls'',
                       tool_calls = [\<lparr>tc_id = ''call_1'', tc_name = ''get_property_details'',
                                      tc_arguments = JSONDecodeError\<rparr>],
                       content = None\<rparr>)
        lead_context 3 messages
       = (Inl (KeyError ''reference''), 1)"
  by (simp add: execute_tool_call_def dict_subscript_def generate_with_tools_def
        numeral_3_eq_3 Let_def)

text \<open>
  An exception of a formatting function leaves the dispatch as well: the formatting
  runs inside \<open>_execute_tool_call\<close>, outside any \<open>try\<close>.
\<close>

lemma formatting_error_leaves_dispatch:
  "get_property_by_reference C reference = Inr (Some prop) \<Longrightarrow>
   format_property_for_chat C prop = Inl err \<Longrightarrow>
   execute_tool_call C ''get_property_details'' [(''reference'', reference)] lead_context = Inl err"
  by (simp add: execute_tool_call_def dict_subscript_def Let_def)

text \<open>
  Claim C7, with a reasoning service that requests a search on each of three rounds.
\<close>

theorem tool_loop_bounded_witness:
  "generate_with_tools no_collaborators always_searching None 3 [Msg ''user'' ''hola'']
     = (Inr STILL_PROCESSING, 3)"
proof -
  have h: "\<forall>k < nat 3. round_goes_on no_collaborators None (always_searching k)"
    by (simp add: round_goes_on_def always_searching_def execute_tool_call_def
          no_collaborators_def returned_def)
  with tool_loop_bounded [of no_collaborators always_searching None 3 "[Msg ''user'' ''hola'']"]
  show ?thesis by simp
qed



section \<open>Nurturing run\<close>

lemma attempts_append: "attempts (xs @ ys) = attempts xs @ attempts ys"
  by (simp add: attempts_def map_filter_def)

lemma whatsapp_events:
  "starts_with ''whatsapp:'' to \<Longrightarrow>
   (case send_whatsapp_message D to m of
      (ok, printed) \<Rightarrow> SendWhatsApp to m ok # printed @ [PrintWhatsAppDone p]) =
     [SendWhatsApp to m (twilio_create D to m = Created),
      (if twilio_create D to m = Created then PrintWhatsAppSent to else PrintWhatsAppError to),
      PrintWhatsAppDone p]"
  by (cases "twilio_create D to m") (simp_all add: send_whatsapp_message_def)

lemma email_events:
  "(case send_email D e t m of
      Inr printed \<Rightarrow> SendEmail e t m True # printed @ [PrintEmailDone e]
    | Inl err \<Rightarrow> [SendEmail e t m False, PrintEmailError e]) =
     (if sendgrid_post D e t m
      then [SendEmail e t m True, PrintEmailSent e, PrintEmailDone e]
      else [SendEmail e t m False, PrintEmailError e])"
  by (simp add: send_email_def)

lemma execute_nurturing_action_events:
  "execute_nurturing_action D lead action =
     (case generate_nurturing_message (a_template action) lead of
        Inl err \<Rightarrow> Inl err
      | Inr m \<Rightarrow>
          Inr ((if (a_channel action = ''whatsapp'' \<or> a_channel action = ''both'')
                   \<and> row_phone lead \<noteq> [] \<and> \<not> starts_with ''ig:'' (row_phone lead)
                then [SendWhatsApp (''whatsapp:'' @ row_phone lead) m
                        (twilio_create D (''whatsapp:'' @ row_phone lead) m = Created),
                      (if twilio_create D (''whatsapp:'' @ row_phone lead) m = Created
                       then PrintWhatsAppSent (''whatsapp:'' @ row_phone lead)
                       else PrintWhatsAppError (''whatsapp:'' @ row_phone lead)),
                      PrintWhatsAppDone (row_phone lead)]
                else [])
               @ (if (a_channel action = ''email'' \<or> a_channel action = ''both'')
                     \<and> row_email lead \<noteq> []
                  then (if sendgrid_post D (row_email lead) (a_template action) m
                        then [SendEmail (row_email lead) (a_template action) m True,
                              PrintEmailSent (row_email lead), PrintEmailDone (row_email lead)]
                        else [SendEmail (row_email lead) (a_template action) m False,
                              PrintEmailError (row_email lead)])
                  else [])))"
  by (cases "generate_nurturing_message (a_template action) lead")
     (simp_all add: execute_nurturing_action_def Let_def whatsapp_events email_events)

lemma execute_nurturing_action_attempts:
  "(case generate_nurturing_message (a_template action) lead of
      Inl err \<Rightarrow> execute_nurturing_action D lead action = Inl err
    | Inr message \<Rightarrow>
        map_sum id attempts (execute_nurturing_action D lead action) =
          Inr ((if (a_channel action = ''whatsapp'' \<or> a_channel action = ''both'')
                   \<and> row_phone lead \<noteq> [] \<and> \<not> starts_with ''ig:'' (row_phone lead)
                then [(''whatsapp'', ''whatsapp:'' @ row_phone lead, message)] else [])
               @ (if (a_channel action = ''email'' \<or> a_channel action = ''both'')
                     \<and> row_email lead \<noteq> []
                  then [(''email'', row_email lead, message)] else [])))"
  by (cases "generate_nurturing_message (a_template action) lead")
     (simp_all add: execute_nurturing_action_events attempts_def map_filter_def)

lemma execute_nurturing_action_indep:
  "map_sum id attempts (execute_nurturing_action D lead action)
     = map_sum id attempts (execute_nurturing_action D' lead action)"
  using execute_nurturing_action_attempts [where action = action and lead = lead and D = D]
        execute_nurturing_action_attempts [where action = action and lead = lead and D = D']
  by (cases "generate_nurturing_message (a_template action) lead") simp_all

lemma nurture_lead_indep:
  "map_sum id (map_prod id attempts) (nurture_lead D lead c)
     = map_sum id (map_prod id attempts) (nurture_lead D' lead c)"
proof (cases "row_last_contact lead = BadLastContact")
  case True
  then show ?thesis by (simp add: nurture_lead_def)
next
  case False
  let ?a = "evaluate_nurturing_rules lead
              (case row_last_contact lead of DaysAgo d \<Rightarrow> d | _ \<Rightarrow> 999)
              (row_score lead) (row_total_interactions lead)"
  show ?thesis
  proof (cases ?a)
    case None
    with False show ?thesis
      by (cases "row_last_contact lead") (simp_all add: nurture_lead_def Let_def)
  next
    case (Some action)
    have "map_sum id attempts (execute_nurturing_action D lead action)
            = map_sum id attempts (execute_nurturing_action D' lead action)"
      by (rule execute_nurturing_action_indep)
    with False Some show ?thesis
      by (cases "row_last_contact lead";
          cases "execute_nurturing_action D lead action";
          cases "execute_nurturing_action D' lead action")
         (simp_all add: nurture_lead_def Let_def)
  qed
qed

lemma nurturing_loop_indep:
  "attempts evs = attempts evs' \<Longrightarrow>
   map_prod id attempts (nurturing_loop D leads (c, evs))
     = map_prod id attempts (nurturing_loop D' leads (c, evs'))"
proof (induction leads arbitrary: c evs evs')
  case Nil
  then show ?case by simp
next
  case (Cons lead leads)
  from nurture_lead_indep [of D lead c D']
  show ?case
  proof (cases "nurture_lead D lead c"; cases "nurture_lead D' lead c")
    fix e e' assume "nurture_lead D lead c = Inl e" "nurture_lead D' lead c = Inl e'"
    then show ?thesis
      using Cons.IH [of "evs @ [PrintLeadError (row_id lead)]" "evs' @ [PrintLeadError (row_id lead)]"
                       "c\<lparr>errors := errors c + 1\<rparr>"] Cons.prems
      by (simp add: attempts_append)
  next
    fix r r' assume r: "nurture_lead D lead c = Inr r" "nurture_lead D' lead c = Inr r'"
    assume "map_sum id (map_prod id attempts) (nurture_lead D lead c)
              = map_sum id (map_prod id attempts) (nurture_lead D' lead c)"
    with r have eq: "fst r = fst r'" "attempts (snd r) = attempts (snd r')"
      by (cases r; cases r'; simp)+
    then show ?thesis
      using r Cons.IH [of "evs @ snd r" "evs' @ snd r'" "fst r'"] Cons.prems
      by (simp add: attempts_append split_def)
  qed (simp_all)
qed

lemma nurture_lead_raises:
  "(\<exists>e. nurture_lead D lead c = Inl e) \<longleftrightarrow> lead_raises lead"
  by (cases "row_last_contact lead")
     (auto simp: nurture_lead_def lead_raises_def execute_nurturing_action_def Let_def returned_def
           split: option.splits sum.splits)

lemma nurture_lead_errors:
  "nurture_lead D lead c = Inr (c', evs) \<Longrightarrow> errors c' = errors c"
  by (cases "row_last_contact lead")
     (auto simp: nurture_lead_def Let_def split: option.splits sum.splits if_splits)

lemma nurturing_loop_errors:
  "errors (fst (nurturing_loop D leads (c, evs))) = errors c + int (length (filter lead_raises leads))"
proof (induction leads arbitrary: c evs)
  case Nil
  show ?case by simp
next
  case (Cons lead leads)
  show ?case
  proof (cases "nurture_lead D lead c")
    case (Inl e)
    then have "lead_raises lead" using nurture_lead_raises [of D lead c] by blast
    with Inl Cons.IH show ?thesis by simp
  next
    case (Inr r)
    then have "\<not> lead_raises lead" using nurture_lead_raises [of D lead c] by auto
    moreover have "errors (fst r) = errors c"
      using Inr nurture_lead_errors [of D lead c "fst r" "snd r"] by simp
    ultimately show ?thesis using Inr Cons.IH by (simp add: split_def)
  qed
qed

text \<open>
  Claim C8 fails as stated: with a stale hot lead and a stale cold lead whose deliveries
  (one by WhatsApp, one by email) both fail, the run records two failed deliveries and
  returns \<open>errors = 0\<close>.
\<close>

theorem failed_deliveries_not_counted:
  "length (filter delivery_failed
             (snd (process_nurturing failing_deliveries [row_hot_stale, row_cold_stale]))) = 2
   \<and> errors (fst (process_nurturing failing_deliveries [row_hot_stale, row_cold_stale])) = 0"
  by code_simp

text \<open>
  Claim C8, amended. Whether deliveries succeed or fail changes neither the returned
  counts nor the delivery attempts of a run: after a failure the other channel of the
  same lead and all later leads are attempted as they would be otherwise. The returned
  \<open>errors\<close> is the number of leads on which the body of the \<open>try\<close> raises (a bad
  \<open>last_contact\<close>, or a message that cannot be composed); a failed delivery is caught
  where it happens and does not count. Every failed delivery is printed with its
  destination: the destinations of the failed deliveries of a run, in order, are the
  destinations that its printed delivery errors show. For one action, the attempts are
  the WhatsApp one and then the email one, each under its own condition on the channel
  and the destination, whatever the outcome of the other.
\<close>

lemma execute_nurturing_action_prints:
  "execute_nurturing_action D lead action = Inr evs \<Longrightarrow>
   List.map_filter failed_destination evs = List.map_filter printed_delivery_error evs"
  by (cases "generate_nurturing_message (a_template action) lead")
     (auto simp: execute_nurturing_action_events map_filter_def)

lemma nurture_lead_prints:
  "nurture_lead D lead c = Inr (c', evs) \<Longrightarrow>
   List.map_filter failed_destination evs = List.map_filter printed_delivery_error evs"
  by (cases "row_last_contact lead")
     (auto simp: nurture_lead_def Let_def map_filter_def
           split: option.splits sum.splits dest: execute_nurturing_action_prints)

lemma nurturing_loop_prints:
  "List.map_filter failed_destination evs = List.map_filter printed_delivery_error evs \<Longrightarrow>
   List.map_filter failed_destination (snd (nurturing_loop D leads (c, evs)))
     = List.map_filter printed_delivery_error (snd (nurturing_loop D leads (c, evs)))"
proof (induction leads arbitrary: c evs)
  case Nil
  then show ?case by simp
next
  case (Cons lead leads)
  show ?case
  proof (cases "nurture_lead D lead c")
    case (Inl e)
    have "List.map_filter failed_destination (evs @ [PrintLeadError (row_id lead)])
            = List.map_filter printed_delivery_error (evs @ [PrintLeadError (row_id lead)])"
      using Cons.prems by (simp add: map_filter_def)
    from Cons.IH [OF this] Inl show ?thesis by simp
  next
    case (Inr r)
    then have "nurture_lead D lead c = Inr (fst r, snd r)" by simp
    from nurture_lead_prints [OF this] Cons.prems
    have "List.map_filter failed_destination (evs @ snd r)
            = List.map_filter printed_delivery_error (evs @ snd r)"
      by (simp add: map_filter_def)
    from Cons.IH [OF this] Inr show ?thesis by (simp add: split_def)
  qed
qed

theorem delivery_outcomes_leave_run_unchanged:
  "fst (process_nurturing D leads) = fst (process_nurturing D' leads)
   \<and> attempts (snd (process_nurturing D leads)) = attempts (snd (process_nurturing D' leads))
   \<and> errors (fst (process_nurturing D leads)) = int (length (filter lead_raises leads))
   \<and> List.map_filter failed_destination (snd (process_nurturing D leads))
       = List.map_filter printed_delivery_error (snd (process_nurturing D leads))
   \<and> (case generate_nurturing_message (a_template action) lead of
        Inl err \<Rightarrow> execute_nurturing_action D lead action = Inl err
      | Inr message \<Rightarrow>
          map_sum id attempts (execute_nurturing_action D lead action) =
            Inr ((if (a_channel action = ''whatsapp'' \<or> a_channel action = ''both'')
                     \<and> row_phone lead \<noteq> [] \<and> \<not> starts_with ''ig:'' (row_phone lead)
                  then [(''whatsapp'', ''whatsapp:'' @ row_phone lead, message)] else [])
                 @ (if (a_channel action = ''email'' \<or> a_channel action = ''both'')
                       \<and> row_email lead \<noteq> []
                    then [(''email'', row_email lead, message)] else [])))"
proof -
  let ?c0 = "\<lparr>messages_sent = 0, emails_sent = 0, leads_processed = 0, errors = 0\<rparr>"
  have "map_prod id attempts (nurturing_loop D leads (?c0, []))
          = map_prod id attempts (nurturing_loop D' leads (?c0, []))"
    by (rule nurturing_loop_indep) simp
  then have a: "fst (process_nurturing D leads) = fst (process_nurturing D' leads)"
    and b: "attempts (snd (process_nurturing D leads)) = attempts (snd (process_nurturing D' leads))"
    by (simp_all add: process_nurturing_def map_prod_def split_def)
  have c: "errors (fst (process_nurturing D leads)) = int (length (filter lead_raises leads))"
    by (simp add: process_nurturing_def nurturing_loop_errors)
  have d: "List.map_filter failed_destination (snd (process_nurturing D leads))
       = List.map_filter printed_delivery_error (snd (process_nurturing D leads))"
    unfolding process_nurturing_def by (rule nurturing_loop_prints) (simp add: map_filter_def)
  from a b c d execute_nurturing_action_attempts [where action = action and lead = lead and D = D]
  show ?thesis by simp
qed


section \<open>Store adapter\<close>

lemma except_return_first_row:
  "except_return None (first_row client req) =
     Inr (case client req of Fails e \<Rightarrow> None | Data rows \<Rightarrow> first_or_none rows)"
  by (simp add: except_return_def first_row_def execute_def split: executed.splits)

lemma except_return_execute:
  "except_return [] (execute client req) =
     Inr (case client req of Fails e \<Rightarrow> [] | Data rows \<Rightarrow> rows)"
  by (simp add: except_return_def execute_def split: executed.splits)

lemma get_conversation_by_lead_total:
  "get_conversation_by_lead client l c =
     Inr (case client (get_conversation_by_lead_request l c) of
            Fails e \<Rightarrow> None | Data rows \<Rightarrow> first_or_none rows)"
  by (simp add: get_conversation_by_lead_def except_return_first_row)

lemma upsert_conversation_total:
  "upsert_conversation client i d =
     Inr (case client (upsert_conversation_request i d) of
            Fails e \<Rightarrow> None | Data rows \<Rightarrow> first_or_none rows)"
  by (simp add: upsert_conversation_def except_return_first_row)

lemma store_adapter_total:
  "get_lead_by_phone client p =
     Inr (case client (Select ''leads'' [(''eq'', ''phone'', PStr p)] None None) of
            Fails e \<Rightarrow> None | Data rows \<Rightarrow> first_or_none rows)"
  "get_lead_by_id client l =
     Inr (case client (Select ''leads'' [(''eq'', ''id'', PStr l)] None None) of
            Fails e \<Rightarrow> None | Data rows \<Rightarrow> first_or_none rows)"
  "create_lead client d =
     Inr (case client (Insert ''leads'' d) of Fails e \<Rightarrow> None | Data rows \<Rightarrow> first_or_none rows)"
  "update_lead client l d =
     Inr (case client (Update ''leads'' d l) of Fails e \<Rightarrow> None | Data rows \<Rightarrow> first_or_none rows)"
  "create_appointment client d =
     Inr (case client (Insert ''appointments'' d) of
            Fails e \<Rightarrow> None | Data rows \<Rightarrow> first_or_none rows)"
  "update_appointment client a d =
     Inr (case client (Update ''appointments'' d a) of
            Fails e \<Rightarrow> None | Data rows \<Rightarrow> first_or_none rows)"
  "create_task client d =
     Inr (case client (Insert ''tasks'' d) of Fails e \<Rightarrow> None | Data rows \<Rightarrow> first_or_none rows)"
  "get_appointments_by_lead client l =
     Inr (case client (Select ''appointments'' [(''eq'', ''lead_id'', PStr l)]
                         (Some (''datetime_'', True)) None) of
            Fails e \<Rightarrow> [] | Data rows \<Rightarrow> rows)"
  by (simp_all add: get_lead_by_phone_def get_lead_by_id_def create_lead_def update_lead_def
        create_appointment_def update_appointment_def create_task_def
        get_appointments_by_lead_def except_return_first_row except_return_execute)

lemma get_active_leads_total:
  "get_active_leads client =
     Inr (case client (Select ''leads''
                         [(''neq'', ''status'', PStr ''cerrado''),
                          (''neq'', ''status'', PStr ''descartado'')]
                         (Some (''last_contact'', True)) (Some 100)) of
            Fails e \<Rightarrow> [] | Data rows \<Rightarrow> rows)"
  by (simp add: get_active_leads_def except_return_execute)

lemma list_queries_total:
  "get_all_leads client s n =
     Inr (case client (Select ''leads''
                         ((case s of None \<Rightarrow> [] | Some v \<Rightarrow>
                             if v \<noteq> [] then [(''eq'', ''status'', PStr v)] else [])
                          @ (case n of None \<Rightarrow> [] | Some m \<Rightarrow> [(''gte'', ''score'', PInt m)]))
                         (Some (''last_contact'', True)) None) of
            Fails e \<Rightarrow> [] | Data rows \<Rightarrow> rows)"
  "get_pending_tasks client a =
     Inr (case client (Select ''tasks''
                         ((''eq'', ''status'', PStr ''pendiente'')
                          # (case a of None \<Rightarrow> [] | Some v \<Rightarrow>
                               if v \<noteq> [] then [(''eq'', ''assigned_to'', PStr v)] else []))
                         (Some (''due_date'', False)) None) of
            Fails e \<Rightarrow> [] | Data rows \<Rightarrow> rows)"
  by (cases s; cases n; cases a;
      simp add: get_all_leads_def get_pending_tasks_def Let_def except_return_execute)+

section \<open>Conversation cache\<close>

lemma cm_extends_refl: "cm_extends st st"
  by (simp add: cm_extends_def)

lemma cm_extends_trans: "cm_extends a b \<Longrightarrow> cm_extends b c \<Longrightarrow> cm_extends a c"
  unfolding cm_extends_def
  apply (intro conjI allI impI)
    apply blast
   apply linarith
  apply (metis append.assoc less_le_trans)
  done

lemma map_of_valid:
  "list_all (\<lambda>kv. snd kv < n) xs \<Longrightarrow> map_of xs k = Some r \<Longrightarrow> r < n"
  by (induction xs) (auto split: if_splits)

lemma cached_ref_valid:
  "cache_refs_valid st \<Longrightarrow> map_of (active_conversations st) k = Some r \<Longrightarrow> r < length (objects st)"
  by (auto simp: cache_refs_valid_def dest: map_of_valid)

lemma map_of_distinct_snd:
  "distinct (map snd xs) \<Longrightarrow> map_of xs k = Some r \<Longrightarrow> map_of xs k' = Some r \<Longrightarrow> k = k'"
proof (induction xs)
  case Nil
  then show ?case by simp
next
  case (Cons a xs)
  obtain ka ra where a: "a = (ka, ra)" by (cases a)
  have notin: "\<And>j. map_of xs j = Some ra \<Longrightarrow> False"
  proof -
    fix j assume "map_of xs j = Some ra"
    then have "(j, ra) \<in> set xs" by (rule map_of_SomeD)
    then have "ra \<in> snd ` set xs" by force
    with Cons.prems(1) a show False by simp
  qed
  from Cons show ?case
    using a notin by (auto split: if_splits)
qed

lemma get_or_create_cached:
  "map_of (active_conversations st) (cache_key l c) = Some r \<Longrightarrow>
   get_or_create_conversation store l c st = Inr (r, st)"
  by (simp add: get_or_create_conversation_def)

lemma get_or_create_fresh:
  "map_of (active_conversations st) (cache_key l c) = None \<Longrightarrow>
   get_or_create_conversation store l c st =
     Inr (length (objects st),
          st\<lparr>active_conversations := (cache_key l c, length (objects st)) # active_conversations st,
             objects := objects st @
               [case (case store (length (store_log st))
                             (get_conversation_by_lead_request l (channel_value c)) of
                        Fails e \<Rightarrow> None | Data rows \<Rightarrow> first_or_none rows) of
                  Some row \<Rightarrow>
                    \<lparr>conv_id = Some (cr_id row), conv_lead_id = l, conv_channel = c,
                     conv_messages = cr_messages row, conv_summary = cr_summary row\<rparr>
                | None \<Rightarrow>
                    \<lparr>conv_id = None, conv_lead_id = l, conv_channel = c,
                     conv_messages = [], conv_summary = None\<rparr>],
             store_log := store_log st
               @ [get_conversation_by_lead_request l (channel_value c)]\<rparr>)"
  by (simp add: get_or_create_conversation_def get_conversation_by_lead_total Let_def)

lemma get_or_create_step:
  assumes inv: "cache_refs_valid st"
  shows "\<exists>r st'. get_or_create_conversation store l c st = Inr (r, st')
           \<and> cache_refs_valid st' \<and> cm_extends st st'
           \<and> map_of (active_conversations st') (cache_key l c) = Some r
           \<and> r < length (objects st')"
proof (cases "map_of (active_conversations st) (cache_key l c)")
  case (Some r)
  with inv show ?thesis
    by (auto simp: get_or_create_cached cm_extends_refl dest: cached_ref_valid)
next
  case None
  define conv where
    "conv = (case (case store (length (store_log st))
                             (get_conversation_by_lead_request l (channel_value c)) of
                        Fails e \<Rightarrow> None | Data rows \<Rightarrow> first_or_none rows) of
                  Some row \<Rightarrow>
                    \<lparr>conv_id = Some (cr_id row), conv_lead_id = l, conv_channel = c,
                     conv_messages = cr_messages row, conv_summary = cr_summary row\<rparr>
                | None \<Rightarrow>
                    \<lparr>conv_id = None, conv_lead_id = l, conv_channel = c,
                     conv_messages = [], conv_summary = None\<rparr>)"
  have eq: "get_or_create_conversation store l c st =
         Inr (length (objects st),
              st\<lparr>active_conversations := (cache_key l c, length (objects st)) # active_conversations st,
                 objects := objects st @ [conv],
                 store_log := store_log st
                   @ [get_conversation_by_lead_request l (channel_value c)]\<rparr>)"
    unfolding conv_def by (rule get_or_create_fresh [OF None])
  let ?st' = "st\<lparr>active_conversations := (cache_key l c, length (objects st)) # active_conversations st,
                 objects := objects st @ [conv],
                 store_log := store_log st
                   @ [get_conversation_by_lead_request l (channel_value c)]\<rparr>"
  have all: "list_all (\<lambda>kv. snd kv < length (objects st)) (active_conversations st)"
    and dist: "distinct (map snd (active_conversations st))"
    using inv by (simp_all add: cache_refs_valid_def)
  have all': "list_all (\<lambda>kv. snd kv < Suc (length (objects st))) (active_conversations st)"
    using all by (simp add: list_all_iff less_Suc_eq)
  have fresh: "length (objects st) \<notin> snd ` set (active_conversations st)"
    using all by (auto simp: list_all_iff)
  have v: "cache_refs_valid ?st'"
    using all' dist fresh by (simp add: cache_refs_valid_def)
  have e: "cm_extends st ?st'"
    using None by (auto simp: cm_extends_def nth_append)
  from eq v e show ?thesis by simp
qed


lemma save_conversation_step:
  "\<exists>st'. save_conversation store ref st = Inr st'
     \<and> active_conversations st' = active_conversations st
     \<and> length (objects st') = length (objects st)
     \<and> (\<forall>i. i \<noteq> ref \<longrightarrow> objects st' ! i = objects st ! i)
     \<and> (ref < length (objects st)
          \<longrightarrow> conv_messages (objects st' ! ref) = conv_messages (objects st ! ref))"
  by (auto simp: save_conversation_def upsert_conversation_total Let_def
        split: executed.splits option.splits)

lemma add_message_step:
  assumes inv: "cache_refs_valid st"
  shows "\<exists>r st1 st'. get_or_create_conversation store l c st = Inr (r, st1)
           \<and> add_message store l rl b c st = Inr (r, st')
           \<and> cache_refs_valid st' \<and> cm_extends st st'
           \<and> map_of (active_conversations st') (cache_key l c) = Some r
           \<and> r < length (objects st')
           \<and> conv_messages (objects st' ! r) =
               conv_messages (objects st1 ! r)
                 @ [\<lparr>msg_role = rl, msg_content = b, msg_channel = Some c\<rparr>]"
proof -
  from get_or_create_step [OF inv, of store l c] obtain r st1 where
    g: "get_or_create_conversation store l c st = Inr (r, st1)"
    and v1: "cache_refs_valid st1" and e1: "cm_extends st st1"
    and k1: "map_of (active_conversations st1) (cache_key l c) = Some r"
    and r1: "r < length (objects st1)"
    by blast
  let ?m = "\<lparr>msg_role = rl, msg_content = b, msg_channel = Some c\<rparr>"
  let ?st2 = "st1\<lparr>objects := (objects st1)
                [r := (objects st1 ! r)\<lparr>conv_messages := conv_messages (objects st1 ! r) @ [?m]\<rparr>]\<rparr>"
  from save_conversation_step [of store r ?st2] obtain st3 where
    s: "save_conversation store r ?st2 = Inr st3"
    and a3: "active_conversations st3 = active_conversations ?st2"
    and l3: "length (objects st3) = length (objects ?st2)"
    and o3: "\<And>i. i \<noteq> r \<Longrightarrow> objects st3 ! i = objects ?st2 ! i"
    and m3: "r < length (objects ?st2)
               \<Longrightarrow> conv_messages (objects st3 ! r) = conv_messages (objects ?st2 ! r)"
    by blast
  have am: "add_message store l rl b c st = Inr (r, st3)"
    using g s by (simp add: add_message_def Let_def)
  have len: "length (objects st3) = length (objects st1)"
    using l3 by simp
  have act: "active_conversations st3 = active_conversations st1"
    using a3 by simp
  have msgs: "conv_messages (objects st3 ! r) = conv_messages (objects st1 ! r) @ [?m]"
    using m3 r1 by simp
  have other: "\<And>i. i \<noteq> r \<Longrightarrow> objects st3 ! i = objects st1 ! i"
    using o3 by simp
  have v3: "cache_refs_valid st3"
    using v1 by (simp add: cache_refs_valid_def len act)
  have e13: "cm_extends st1 st3"
    unfolding cm_extends_def
  proof (intro conjI allI impI)
    fix k r' assume "map_of (active_conversations st1) k = Some r'"
    then show "map_of (active_conversations st3) k = Some r'" by (simp add: act)
  next
    show "length (objects st1) \<le> length (objects st3)" by (simp add: len)
  next
    fix i assume "i < length (objects st1)"
    show "\<exists>ms. conv_messages (objects st3 ! i) = conv_messages (objects st1 ! i) @ ms"
    proof (cases "i = r")
      case True
      with msgs show ?thesis by blast
    next
      case False
      then show ?thesis by (simp add: other)
    qed
  qed
  have e3: "cm_extends st st3"
    using e1 e13 by (rule cm_extends_trans)
  from g am v3 e3 k1 r1 msgs show ?thesis
    by (auto simp: act len)
qed

lemma run_calls_step:
  "cache_refs_valid st \<Longrightarrow>
   \<exists>st'. run_calls store calls st = Inr st' \<and> cache_refs_valid st' \<and> cm_extends st st'"
proof (induction calls arbitrary: st)
  case Nil
  then show ?case by (simp add: cm_extends_refl)
next
  case (Cons call calls)
  show ?case
  proof (cases call)
    case (GetOrCreate l c)
    from get_or_create_step [OF Cons.prems, of store l c] obtain r st1 where
      g: "get_or_create_conversation store l c st = Inr (r, st1)"
      and v1: "cache_refs_valid st1" and e1: "cm_extends st st1"
      by blast
    from Cons.IH [OF v1] obtain st' where
      "run_calls store calls st1 = Inr st'" "cache_refs_valid st'" "cm_extends st1 st'"
      by blast
    with g e1 GetOrCreate show ?thesis
      by (auto intro: cm_extends_trans)
  next
    case (AddMessage l rl b c)
    from add_message_step [OF Cons.prems, of store l c rl b] obtain r st1 where
      g: "add_message store l rl b c st = Inr (r, st1)"
      and v1: "cache_refs_valid st1" and e1: "cm_extends st st1"
      by blast
    from Cons.IH [OF v1] obtain st' where
      "run_calls store calls st1 = Inr st'" "cache_refs_valid st'" "cm_extends st1 st'"
      by blast
    with g e1 AddMessage show ?thesis
      by (auto intro: cm_extends_trans)
  qed
qed

lemma channel_value_inj: "channel_value c = channel_value c' \<Longrightarrow> c = c'"
  by (cases c; cases c'; simp)

lemma split_at_last_underscore:
  "CHR ''_'' \<notin> set v \<Longrightarrow> CHR ''_'' \<notin> set w \<Longrightarrow>
   xs @ CHR ''_'' # v = ys @ CHR ''_'' # w \<Longrightarrow> xs = ys \<and> v = w"
proof (induction xs arbitrary: ys)
  case Nil
  then show ?case by (cases ys) auto
next
  case (Cons x xs)
  show ?case
  proof (cases ys)
    case Nil
    with Cons.prems show ?thesis by auto
  next
    case (Cons y ys')
    with Cons.prems Cons.IH [of ys'] show ?thesis by auto
  qed
qed

lemma channel_value_no_underscore: "CHR ''_'' \<notin> set (channel_value c)"
  by (cases c) simp_all

lemma cache_key_inj: "cache_key l c = cache_key l' c' \<Longrightarrow> l = l' \<and> c = c'"
proof -
  assume "cache_key l c = cache_key l' c'"
  then have "l @ CHR ''_'' # channel_value c = l' @ CHR ''_'' # channel_value c'"
    by (simp add: cache_key_def)
  from split_at_last_underscore [OF channel_value_no_underscore channel_value_no_underscore this]
  show ?thesis by (auto dest: channel_value_inj)
qed

lemma cache_key_inj_channel: "cache_key l c = cache_key l c' \<Longrightarrow> c = c'"
  by (simp add: cache_key_def channel_value_inj)

text \<open>
  Claim C9. Each lead, conversation, appointment and task function of the store adapter
  returns for every behaviour of the client, never an exception: the first row or
  \<open>None\<close> (the rows or the empty list for the list-returning functions), and \<open>None\<close>
  (the empty list) when the client fails. Consequently \<open>add_message\<close> returns whatever
  the store does, and the conversation it returns has the new message appended to the
  messages that \<open>get_or_create_conversation\<close> gave.
\<close>

theorem store_adapter_never_raises:
  "get_lead_by_phone client p =
     Inr (case client (Select ''leads'' [(''eq'', ''phone'', PStr p)] None None) of
            Fails e \<Rightarrow> None | Data rows \<Rightarrow> first_or_none rows)
   \<and> get_lead_by_id client l =
     Inr (case client (Select ''leads'' [(''eq'', ''id'', PStr l)] None None) of
            Fails e \<Rightarrow> None | Data rows \<Rightarrow> first_or_none rows)
   \<and> create_lead client d =
     Inr (case client (Insert ''leads'' d) of Fails e \<Rightarrow> None | Data rows \<Rightarrow> first_or_none rows)
   \<and> update_lead client l d =
     Inr (case client (Update ''leads'' d l) of Fails e \<Rightarrow> None | Data rows \<Rightarrow> first_or_none rows)
   \<and> get_all_leads client s n =
     Inr (case client (Select ''leads''
                         ((case s of None \<Rightarrow> [] | Some v \<Rightarrow>
                             if v \<noteq> [] then [(''eq'', ''status'', PStr v)] else [])
                          @ (case n of None \<Rightarrow> [] | Some m \<Rightarrow> [(''gte'', ''score'', PInt m)]))
                         (Some (''last_contact'', True)) None) of
            Fails e \<Rightarrow> [] | Data rows \<Rightarrow> rows)
   \<and> get_active_leads client =
     Inr (case client (Select ''leads''
                         [(''neq'', ''status'', PStr ''cerrado''),
                          (''neq'', ''status'', PStr ''descartado'')]
                         (Some (''last_contact'', True)) (Some 100)) of
            Fails e \<Rightarrow> [] | Data rows \<Rightarrow> rows)
   \<and> get_conversation_by_lead client l cn =
     Inr (case client (get_conversation_by_lead_request l cn) of
            Fails e \<Rightarrow> None | Data rows \<Rightarrow> first_or_none rows)
   \<and> upsert_conversation client i d =
     Inr (case client (upsert_conversation_request i d) of
            Fails e \<Rightarrow> None | Data rows \<Rightarrow> first_or_none rows)
   \<and> create_appointment client d =
     Inr (case client (Insert ''appointments'' d) of
            Fails e \<Rightarrow> None | Data rows \<Rightarrow> first_or_none rows)
   \<and> get_appointments_by_lead client l =
     Inr (case client (Select ''appointments'' [(''eq'', ''lead_id'', PStr l)]
                         (Some (''datetime_'', True)) None) of
            Fails e \<Rightarrow> [] | Data rows \<Rightarrow> rows)
   \<and> update_appointment client a d =
     Inr (case client (Update ''appointments'' d a) of
            Fails e \<Rightarrow> None | Data rows \<Rightarrow> first_or_none rows)
   \<and> create_task client d =
     Inr (case client (Insert ''tasks'' d) of Fails e \<Rightarrow> None | Data rows \<Rightarrow> first_or_none rows)
   \<and> get_pending_tasks client t =
     Inr (case client (Select ''tasks''
                         ((''eq'', ''status'', PStr ''pendiente'')
                          # (case t of None \<Rightarrow> [] | Some v \<Rightarrow>
                               if v \<noteq> [] then [(''eq'', ''assigned_to'', PStr v)] else []))
                         (Some (''due_date'', False)) None) of
            Fails e \<Rightarrow> [] | Data rows \<Rightarrow> rows)
   \<and> (cache_refs_valid st \<longrightarrow>
        (\<exists>ref st1 st'.
           get_or_create_conversation store lead_id chan st = Inr (ref, st1)
           \<and> add_message store lead_id role_name body chan st = Inr (ref, st')
           \<and> ref < length (objects st')
           \<and> conv_messages (objects st' ! ref) =
               conv_messages (objects st1 ! ref)
                 @ [\<lparr>msg_role = role_name, msg_content = body, msg_channel = Some chan\<rparr>]))"
proof -
  have msg: "cache_refs_valid st \<longrightarrow>
        (\<exists>ref st1 st'.
           get_or_create_conversation store lead_id chan st = Inr (ref, st1)
           \<and> add_message store lead_id role_name body chan st = Inr (ref, st')
           \<and> ref < length (objects st')
           \<and> conv_messages (objects st' ! ref) =
               conv_messages (objects st1 ! ref)
                 @ [\<lparr>msg_role = role_name, msg_content = body, msg_channel = Some chan\<rparr>])"
  proof
    assume "cache_refs_valid st"
    from add_message_step [OF this, of store lead_id chan role_name body]
    show "\<exists>ref st1 st'.
           get_or_create_conversation store lead_id chan st = Inr (ref, st1)
           \<and> add_message store lead_id role_name body chan st = Inr (ref, st')
           \<and> ref < length (objects st')
           \<and> conv_messages (objects st' ! ref) =
               conv_messages (objects st1 ! ref)
                 @ [\<lparr>msg_role = role_name, msg_content = body, msg_channel = Some chan\<rparr>]"
      by blast
  qed
  show ?thesis
    by (intro conjI store_adapter_total list_queries_total get_active_leads_total
          get_conversation_by_lead_total
          upsert_conversation_total msg)
qed

text \<open>
  Claim C9, with a store that is down: the update gives \<open>None\<close>, the listing gives the
  empty list, and the message is appended in a fresh process.
\<close>

theorem store_adapter_never_raises_witness:
  "update_lead (store_down 0) ''L1''
       \<lparr>cd_lead_id = ''L1'', cd_channel = ''whatsapp'', cd_messages = [], cd_summary = None\<rparr> = Inr None
   \<and> get_all_leads (store_down 0) None None = Inr []
   \<and> (\<exists>ref st1 st'.
         get_or_create_conversation store_down ''L1'' WHATSAPP cm_initial = Inr (ref, st1)
         \<and> add_message store_down ''L1'' ''user'' ''hola'' WHATSAPP cm_initial = Inr (ref, st')
         \<and> ref < length (objects st')
         \<and> conv_messages (objects st' ! ref) =
             conv_messages (objects st1 ! ref)
               @ [\<lparr>msg_role = ''user'', msg_content = ''hola'', msg_channel = Some WHATSAPP\<rparr>])"
proof -
  have inv: "cache_refs_valid cm_initial" by code_simp
  from store_adapter_never_raises
         [of "store_down 0" _ "''L1''"
             "\<lparr>cd_lead_id = ''L1'', cd_channel = ''whatsapp'', cd_messages = [], cd_summary = None\<rparr>" None None _ _ _ _ cm_initial store_down "''L1''" WHATSAPP
             "''user''" "''hola''"]
       inv
  show ?thesis by (simp add: store_down_def)
qed

text \<open>
  Claim C10. After \<open>get_or_create_conversation\<close> has returned a conversation for a lead
  and a channel, the cache maps the key of that pair to it; after any further calls of
  \<open>get_or_create_conversation\<close> and \<open>add_message\<close> (no \<open>clear_cache\<close>), a call for
  the same pair returns the same object and leaves the state as it is, so it makes no
  request to the store, whatever the store is; the messages of the object only grow; a
  message appended by \<open>add_message\<close> for the pair is in the object that every later
  call for the pair returns; a call for another channel of the same lead returns another
  object and leaves the entry of the first in place; and no other pair has the same key.
\<close>

theorem cached_conversation_is_shared:
  assumes inv: "cache_refs_valid st"
    and goc: "get_or_create_conversation store lead_id chan st = Inr (ref, st1)"
    and run: "run_calls store' calls st1 = Inr st2"
  shows "map_of (active_conversations st1) (cache_key lead_id chan) = Some ref
    \<and> get_or_create_conversation store'' lead_id chan st2 = Inr (ref, st2)
    \<and> (\<exists>ms. conv_messages (objects st2 ! ref) = conv_messages (objects st1 ! ref) @ ms)
    \<and> (\<forall>role_name body ref' st3 calls' st4.
          add_message store'' lead_id role_name body chan st2 = Inr (ref', st3) \<longrightarrow>
          run_calls store'' calls' st3 = Inr st4 \<longrightarrow>
          ref' = ref
          \<and> get_or_create_conversation store'' lead_id chan st4 = Inr (ref, st4)
          \<and> \<lparr>msg_role = role_name, msg_content = body, msg_channel = Some chan\<rparr>
              \<in> set (conv_messages (objects st4 ! ref)))
    \<and> (\<forall>chan' ref' st3.
          chan' \<noteq> chan \<longrightarrow>
          get_or_create_conversation store'' lead_id chan' st2 = Inr (ref', st3) \<longrightarrow>
          ref' \<noteq> ref
          \<and> map_of (active_conversations st3) (cache_key lead_id chan) = Some ref)
    \<and> (\<forall>lead_id' chan'.
          cache_key lead_id' chan' = cache_key lead_id chan \<longrightarrow> lead_id' = lead_id \<and> chan' = chan)"
proof -
  let ?key = "cache_key lead_id chan"
  from get_or_create_step [OF inv, of store lead_id chan] goc
  have v1: "cache_refs_valid st1" and k1: "map_of (active_conversations st1) ?key = Some ref"
    and r1: "ref < length (objects st1)"
    by auto
  from run_calls_step [OF v1, of store' calls] run
  have v2: "cache_refs_valid st2" and e12: "cm_extends st1 st2"
    by auto
  from e12 k1 have k2: "map_of (active_conversations st2) ?key = Some ref"
    by (simp add: cm_extends_def)
  then have g2: "get_or_create_conversation store'' lead_id chan st2 = Inr (ref, st2)"
    by (rule get_or_create_cached)
  from e12 r1 have p2: "\<exists>ms. conv_messages (objects st2 ! ref) = conv_messages (objects st1 ! ref) @ ms"
    by (simp add: cm_extends_def)
  have vis: "ref' = ref
          \<and> get_or_create_conversation store'' lead_id chan st4 = Inr (ref, st4)
          \<and> \<lparr>msg_role = role_name, msg_content = body, msg_channel = Some chan\<rparr>
              \<in> set (conv_messages (objects st4 ! ref))"
    if am: "add_message store'' lead_id role_name body chan st2 = Inr (ref', st3)"
      and rc: "run_calls store'' calls' st3 = Inr st4"
    for role_name body ref' st3 calls' st4
  proof -
    from add_message_step [OF v2, of store'' lead_id chan role_name body] g2 am
    have same: "ref' = ref" and v3: "cache_refs_valid st3"
      and k3: "map_of (active_conversations st3) ?key = Some ref"
      and r3: "ref < length (objects st3)"
      and m3: "conv_messages (objects st3 ! ref) =
                 conv_messages (objects st2 ! ref)
                   @ [\<lparr>msg_role = role_name, msg_content = body, msg_channel = Some chan\<rparr>]"
      by auto
    from run_calls_step [OF v3, of store'' calls'] rc
    have e34: "cm_extends st3 st4" by auto
    from e34 k3 have "map_of (active_conversations st4) ?key = Some ref"
      by (simp add: cm_extends_def)
    then have g4: "get_or_create_conversation store'' lead_id chan st4 = Inr (ref, st4)"
      by (rule get_or_create_cached)
    from e34 r3 obtain ms where
      "conv_messages (objects st4 ! ref) = conv_messages (objects st3 ! ref) @ ms"
      by (auto simp: cm_extends_def)
    with m3 have "\<lparr>msg_role = role_name, msg_content = body, msg_channel = Some chan\<rparr>
              \<in> set (conv_messages (objects st4 ! ref))"
      by simp
    with same g4 show ?thesis by simp
  qed
  have other: "ref' \<noteq> ref \<and> map_of (active_conversations st3) ?key = Some ref"
    if ne: "chan' \<noteq> chan"
      and g: "get_or_create_conversation store'' lead_id chan' st2 = Inr (ref', st3)"
    for chan' ref' st3
  proof -
    from get_or_create_step [OF v2, of store'' lead_id chan'] g
    have v3: "cache_refs_valid st3" and e23: "cm_extends st2 st3"
      and k3': "map_of (active_conversations st3) (cache_key lead_id chan') = Some ref'"
      by auto
    from e23 k2 have k3: "map_of (active_conversations st3) ?key = Some ref"
      by (simp add: cm_extends_def)
    from v3 have d3: "distinct (map snd (active_conversations st3))"
      by (simp add: cache_refs_valid_def)
    have "ref' \<noteq> ref"
    proof
      assume "ref' = ref"
      with k3' have "map_of (active_conversations st3) (cache_key lead_id chan') = Some ref" by simp
      from map_of_distinct_snd [OF d3 this k3] have "cache_key lead_id chan' = ?key" .
      then have "chan' = chan" by (rule cache_key_inj_channel)
      with ne show False by simp
    qed
    with k3 show ?thesis by simp
  qed
  have key: "lead_id' = lead_id \<and> chan' = chan"
    if "cache_key lead_id' chan' = cache_key lead_id chan" for lead_id' chan'
    using that by (rule cache_key_inj)
  from k1 g2 p2 vis other key show ?thesis by blast
qed

text \<open>
  Claim C10, in a fresh process with a store that is down: the WhatsApp conversation of
  lead L1 is object 0 before and after a session that appends a message to it and opens
  the email conversation of the same lead, which is object 1.
\<close>

theorem cached_conversation_is_shared_witness:
  "map_of (active_conversations cm_first) (cache_key ''L1'' WHATSAPP) = Some 0
   \<and> get_or_create_conversation store_down ''L1'' WHATSAPP cm_later = Inr (0, cm_later)
   \<and> (\<exists>ms. conv_messages (objects cm_later ! 0) = conv_messages (objects cm_first ! 0) @ ms)
   \<and> conv_messages (objects cm_later ! 0)
        = [\<lparr>msg_role = ''user'', msg_content = ''hola'', msg_channel = Some WHATSAPP\<rparr>]
   \<and> fst (projr (get_or_create_conversation store_down ''L1'' EMAIL cm_later)) = 1"
proof -
  have h1: "cache_refs_valid cm_initial" by code_simp
  have h2: "get_or_create_conversation store_down ''L1'' WHATSAPP cm_initial = Inr (0, cm_first)"
    by code_simp
  have h3: "run_calls store_down session_calls cm_first = Inr cm_later"
    by code_simp
  have c4: "conv_messages (objects cm_later ! 0)
        = [\<lparr>msg_role = ''user'', msg_content = ''hola'', msg_channel = Some WHATSAPP\<rparr>]"
    by code_simp
  have c5: "fst (projr (get_or_create_conversation store_down ''L1'' EMAIL cm_later)) = 1"
    by code_simp
  from cached_conversation_is_shared [OF h1 h2 h3, of store_down] c4 c5
  show ?thesis by blast
qed

end
